theory Spec2Isabelle
  imports Complex_Main "HOL-Library.Sublist"
begin

section \<open>Vector3 arithmetic used by the subdivision algorithms\<close>

text \<open>
  A \<^verbatim>\<open>THREE.Vector3\<close> is a triple of JavaScript numbers. Numbers are modelled as
  mathematical reals: IEEE rounding is not part of the model. The operations below are
  the methods of the three.js class that \<^verbatim>\<open>Scene.tsx\<close> calls, with their results
  returned instead of stored in the receiver.
\<close>

datatype Vector3 = Vector3 (vx: real) (vy: real) (vz: real)

definition addVectors :: "Vector3 \<Rightarrow> Vector3 \<Rightarrow> Vector3" where
  "addVectors a b = Vector3 (vx a + vx b) (vy a + vy b) (vz a + vz b)"

definition subVectors :: "Vector3 \<Rightarrow> Vector3 \<Rightarrow> Vector3" where
  "subVectors a b = Vector3 (vx a - vx b) (vy a - vy b) (vz a - vz b)"

definition multiplyScalar :: "Vector3 \<Rightarrow> real \<Rightarrow> Vector3" where
  "multiplyScalar a s = Vector3 (vx a * s) (vy a * s) (vz a * s)"

definition divideScalar :: "Vector3 \<Rightarrow> real \<Rightarrow> Vector3" where
  "divideScalar a s = multiplyScalar a (1 / s)"

definition crossVectors :: "Vector3 \<Rightarrow> Vector3 \<Rightarrow> Vector3" where
  "crossVectors a b =
     Vector3 (vy a * vz b - vz a * vy b) (vz a * vx b - vx a * vz b) (vx a * vy b - vy a * vx b)"

definition vlength :: "Vector3 \<Rightarrow> real" where
  "vlength a = sqrt (vx a * vx a + vy a * vy a + vz a * vz a)"

definition vnormalize :: "Vector3 \<Rightarrow> Vector3" where
  \<comment> \<open>\<^verbatim>\<open>divideScalar(length() || 1)\<close>: a zero vector stays zero.\<close>
  "vnormalize a = divideScalar a (if vlength a = 0 then 1 else vlength a)"

definition distanceTo :: "Vector3 \<Rightarrow> Vector3 \<Rightarrow> real" where
  "distanceTo a b =
     sqrt ((vx a - vx b) * (vx a - vx b) + (vy a - vy b) * (vy a - vy b)
           + (vz a - vz b) * (vz a - vz b))"

definition midpoint :: "Vector3 \<Rightarrow> Vector3 \<Rightarrow> Vector3" where
  \<comment> \<open>\<^verbatim>\<open>new Vector3().addVectors(a, b).multiplyScalar(0.5)\<close>\<close>
  "midpoint a b = multiplyScalar (addVectors a b) 0.5"

definition centroid3 :: "Vector3 \<Rightarrow> Vector3 \<Rightarrow> Vector3 \<Rightarrow> Vector3" where
  \<comment> \<open>\<^verbatim>\<open>new Vector3().add(a).add(b).add(c).divideScalar(3)\<close>\<close>
  "centroid3 a b c =
     divideScalar (addVectors (addVectors (addVectors (Vector3 0 0 0) a) b) c) 3"

definition faceNormal :: "Vector3 \<Rightarrow> Vector3 \<Rightarrow> Vector3 \<Rightarrow> Vector3" where
  \<comment> \<open>\<^verbatim>\<open>crossVectors(subVectors(b, a), subVectors(c, a)).normalize()\<close>\<close>
  "faceNormal a b c = vnormalize (crossVectors (subVectors b a) (subVectors c a))"

section \<open>Recursive subdivision algorithms\<close>

text \<open>
  Every algorithm receives a triangle, a depth and the output list it appends to
  (\<^verbatim>\<open>vertexList.push\<close>); the model returns the extended list. A vertex list holds
  one entry per pushed vertex, three per triangle. The depth is a natural number: the
  source tests \<^verbatim>\<open>depth === 0\<close> and recurses on \<^verbatim>\<open>depth - 1\<close>.
\<close>

type_synonym VertexList = "Vector3 list"

fun buildHole :: "Vector3 \<Rightarrow> Vector3 \<Rightarrow> Vector3 \<Rightarrow> nat \<Rightarrow> VertexList \<Rightarrow> VertexList" where
  "buildHole v1 v2 v3 0 holeList = holeList @ [v1, v2, v3]"
| "buildHole v1 v2 v3 (Suc depth) holeList =
     (let m12 = midpoint v1 v2;
          m23 = midpoint v2 v3;
          m31 = midpoint v3 v1;
          holeList = buildHole v1 m12 m31 depth holeList;
          holeList = buildHole m12 v2 m23 depth holeList;
          holeList = buildHole m31 m23 v3 depth holeList
      in holeList)"

fun buildFractal ::
  "Vector3 \<Rightarrow> Vector3 \<Rightarrow> Vector3 \<Rightarrow> nat \<Rightarrow> VertexList \<times> VertexList \<Rightarrow> VertexList \<times> VertexList"
where
  "buildFractal v1 v2 v3 0 (mainList, dualList) = (mainList @ [v1, v2, v3], dualList)"
| "buildFractal v1 v2 v3 (Suc depth) (mainList, dualList) =
     (let m12 = midpoint v1 v2;
          m23 = midpoint v2 v3;
          m31 = midpoint v3 v1;
          lists = buildFractal v1 m12 m31 depth (mainList, dualList);
          lists = buildFractal m12 v2 m23 depth lists;
          lists = buildFractal m31 m23 v3 depth lists
      in (fst lists, buildHole m12 m23 m31 depth (snd lists)))"

fun buildKoch :: "Vector3 \<Rightarrow> Vector3 \<Rightarrow> Vector3 \<Rightarrow> nat \<Rightarrow> VertexList \<Rightarrow> VertexList" where
  "buildKoch v1 v2 v3 0 vertexList = vertexList @ [v1, v2, v3]"
| "buildKoch v1 v2 v3 (Suc depth) vertexList =
     (let m12 = midpoint v1 v2;
          m23 = midpoint v2 v3;
          m31 = midpoint v3 v1;
          vertexList = buildKoch v1 m12 m31 depth vertexList;
          vertexList = buildKoch m12 v2 m23 depth vertexList;
          vertexList = buildKoch m31 m23 v3 depth vertexList;
          centroid = centroid3 m12 m23 m31;
          normal = faceNormal m12 m23 m31;
          edgeLength = distanceTo m12 m23;
          spikeHeight = edgeLength * sqrt (2.0 / 3.0);
          spikeApex = addVectors centroid (multiplyScalar normal spikeHeight)
      in vertexList @ [m12, m23, spikeApex] @ [m23, m31, spikeApex] @ [m31, m12, spikeApex])"

definition emitted :: "VertexList \<Rightarrow> VertexList \<Rightarrow> VertexList" where
  \<comment> \<open>what a call pushed: the output list without the entries it held before the call\<close>
  "emitted before after = drop (length before) after"

definition triangleCount :: "VertexList \<Rightarrow> nat" where
  \<comment> \<open>vertex lists are consumed in groups of three\<close>
  "triangleCount vs = length vs div 3"

fun kochEmitted :: "nat \<Rightarrow> nat" where
  \<comment> \<open>triangles pushed by one call of \<^verbatim>\<open>buildKoch\<close>: three recursive calls, then three spike faces\<close>
  "kochEmitted 0 = 1"
| "kochEmitted (Suc d) = 3 * kochEmitted d + 3"

section \<open>Escape-time iteration\<close>

text \<open>
  \<^verbatim>\<open>juliaIteration\<close> and \<^verbatim>\<open>mandelbrotIteration\<close> run the same \<^verbatim>\<open>while\<close> loop
  on \<open>(zx, zy, i)\<close>; they differ in the constant and in the starting point. The loop
  is \<open>escapeLoop\<close>; it stops because \<open>i\<close> grows up to \<open>maxIter\<close>.
\<close>

function escapeLoop :: "real \<Rightarrow> real \<Rightarrow> real \<Rightarrow> real \<Rightarrow> nat \<Rightarrow> nat \<Rightarrow> nat" where
  "escapeLoop cx cy zx zy i maxIter =
     (if zx * zx + zy * zy \<le> 4 \<and> i < maxIter
      then escapeLoop cx cy (zx * zx - zy * zy + cx) (2 * zx * zy + cy) (i + 1) maxIter
      else i)"
  by pat_completeness auto
termination
  by (relation "measure (\<lambda>(cx, cy, zx, zy, i, maxIter). maxIter - i)") auto

declare escapeLoop.simps [simp del]

definition juliaIteration :: "real \<Rightarrow> real \<Rightarrow> nat \<Rightarrow> nat" where
  "juliaIteration zx zy maxIter = escapeLoop (-0.70176) (-0.3842) zx zy 0 maxIter"

definition mandelbrotIteration :: "real \<Rightarrow> real \<Rightarrow> nat \<Rightarrow> nat" where
  "mandelbrotIteration cx cy maxIter = escapeLoop cx cy 0 0 0 maxIter"

text \<open>
  The iteration as the specification words it: starting from \<open>z\<close>, replace \<open>z\<close> by
  \<open>z\<^sup>2 + c\<close> until \<open>|z| > 2\<close> or \<open>cap\<close> steps were made, and count the steps.
\<close>

fun escapeTime :: "complex \<Rightarrow> complex \<Rightarrow> nat \<Rightarrow> nat" where
  "escapeTime c z 0 = 0"
| "escapeTime c z (Suc cap) = (if cmod z > 2 then 0 else Suc (escapeTime c (z * z + c) cap))"

fun buildJulia :: "Vector3 \<Rightarrow> Vector3 \<Rightarrow> Vector3 \<Rightarrow> nat \<Rightarrow> VertexList \<Rightarrow> VertexList" where
  "buildJulia v1 v2 v3 0 vertexList = vertexList @ [v1, v2, v3]"
| "buildJulia v1 v2 v3 (Suc depth) vertexList =
     (let m12 = midpoint v1 v2;
          m23 = midpoint v2 v3;
          m31 = midpoint v3 v1;
          vertexList = buildJulia v1 m12 m31 depth vertexList;
          vertexList = buildJulia m12 v2 m23 depth vertexList;
          vertexList = buildJulia m31 m23 v3 depth vertexList;
          centroid = centroid3 m12 m23 m31;
          zx = (vx centroid / 7.5) * 2.0;
          zy = (vy centroid / 7.5) * 2.0;
          maxIterations = 32;
          iterations = juliaIteration zx zy maxIterations
      in if iterations < maxIterations
         then (let normal = faceNormal m12 m23 m31;
                   maxHeight = 1.5;
                   height = (1.0 - (real iterations / real maxIterations)) * maxHeight
                              * (vlength v1 / 7.5);
                   spikeApex = addVectors centroid (multiplyScalar normal height)
               in vertexList @ [m12, m23, spikeApex] @ [m23, m31, spikeApex]
                    @ [m31, m12, spikeApex])
         else vertexList @ [m12, m23, m31])"

fun buildMandelbrot :: "Vector3 \<Rightarrow> Vector3 \<Rightarrow> Vector3 \<Rightarrow> nat \<Rightarrow> VertexList \<Rightarrow> VertexList" where
  "buildMandelbrot v1 v2 v3 0 vertexList = vertexList @ [v1, v2, v3]"
| "buildMandelbrot v1 v2 v3 (Suc depth) vertexList =
     (let m12 = midpoint v1 v2;
          m23 = midpoint v2 v3;
          m31 = midpoint v3 v1;
          vertexList = buildMandelbrot v1 m12 m31 depth vertexList;
          vertexList = buildMandelbrot m12 v2 m23 depth vertexList;
          vertexList = buildMandelbrot m31 m23 v3 depth vertexList;
          centroid = centroid3 m12 m23 m31;
          cx = (vx centroid / 7.5) * 1.5 - 0.5;
          cy = (vy centroid / 7.5) * 1.5;
          maxIterations = 32;
          iterations = mandelbrotIteration cx cy maxIterations
      in if iterations < maxIterations
         then (let normal = faceNormal m12 m23 m31;
                   maxHeight = 1.5;
                   height = (1.0 - (real iterations / real maxIterations)) * maxHeight
                              * (vlength v1 / 7.5);
                   spikeApex = addVectors centroid (multiplyScalar normal height)
               in vertexList @ [m12, m23, spikeApex] @ [m23, m31, spikeApex]
                    @ [m31, m12, spikeApex])
         else vertexList @ [m12, m23, m31])"






section \<open>The base polyhedron\<close>

text \<open>
  \<^verbatim>\<open>generateStructure\<close> seeds every algorithm with the faces of
  \<^verbatim>\<open>new THREE.IcosahedronGeometry(radius, 1)\<close>. three.js is a dependency of the
  repository; the class is modelled after the library's \<^verbatim>\<open>PolyhedronGeometry\<close>: the
  twelve vertices and twenty faces of the icosahedron, every face subdivided with
  \<open>detail + 1\<close> segments per edge, every vertex projected to the sphere of the given
  radius. The result is the non-indexed position attribute, three entries per triangle.
\<close>

definition vlerp :: "Vector3 \<Rightarrow> Vector3 \<Rightarrow> real \<Rightarrow> Vector3" where
  \<comment> \<open>\<^verbatim>\<open>a.clone().lerp(b, alpha)\<close>\<close>
  "vlerp a b alpha =
     Vector3 (vx a + (vx b - vx a) * alpha) (vy a + (vy b - vy a) * alpha)
             (vz a + (vz b - vz a) * alpha)"

definition subdivideFace :: "Vector3 \<Rightarrow> Vector3 \<Rightarrow> Vector3 \<Rightarrow> nat \<Rightarrow> Vector3 list" where
  "subdivideFace a b c detail =
     (let cols = detail + 1;
          v = (\<lambda>i j.
                 let aj = vlerp a c (real i / real cols);
                     bj = vlerp b c (real i / real cols);
                     rows = cols - i
                 in if j = 0 \<and> i = cols then aj else vlerp aj bj (real j / real rows))
      in concat (map (\<lambda>i.
           concat (map (\<lambda>j.
             let k = j div 2
             in if j mod 2 = 0
                then [v i (k + 1), v (i + 1) k, v i k]
                else [v i (k + 1), v (i + 1) (k + 1), v (i + 1) k])
           [0 ..< 2 * (cols - i) - 1]))
         [0 ..< cols]))"

definition icosahedronVertices :: "Vector3 list" where
  "icosahedronVertices =
     (let t = (1 + sqrt 5) / 2
      in [Vector3 (- 1) t 0, Vector3 1 t 0, Vector3 (- 1) (- t) 0, Vector3 1 (- t) 0,
          Vector3 0 (- 1) t, Vector3 0 1 t, Vector3 0 (- 1) (- t), Vector3 0 1 (- t),
          Vector3 t 0 (- 1), Vector3 t 0 1, Vector3 (- t) 0 (- 1), Vector3 (- t) 0 1])"

definition icosahedronIndices :: "(nat \<times> nat \<times> nat) list" where
  "icosahedronIndices =
     [(0, 11, 5), (0, 5, 1), (0, 1, 7), (0, 7, 10), (0, 10, 11),
      (1, 5, 9), (5, 11, 4), (11, 10, 2), (10, 7, 6), (7, 1, 8),
      (3, 9, 4), (3, 4, 2), (3, 2, 6), (3, 6, 8), (3, 8, 9),
      (4, 9, 5), (2, 4, 11), (6, 2, 10), (8, 6, 7), (9, 8, 1)]"

definition IcosahedronGeometry :: "real \<Rightarrow> nat \<Rightarrow> Vector3 list" where
  "IcosahedronGeometry radius detail =
     map (\<lambda>v. multiplyScalar (vnormalize v) radius)
       (concat (map (\<lambda>(i, j, k).
          subdivideFace (icosahedronVertices ! i) (icosahedronVertices ! j)
            (icosahedronVertices ! k) detail)
        icosahedronIndices))"

section \<open>Scene objects\<close>

text \<open>
  Geometries and materials are JavaScript objects that several meshes may share and that
  are mutated in place (opacity, vertex colours, disposal), so they live in a heap and
  meshes hold references (indices) to them. \<^verbatim>\<open>dispose()\<close> is recorded as a flag
  on the object. A buffer attribute with item size 3 is a list of triples. Normals,
  visibility flags and the field of view are not part of the model.
\<close>

datatype FractalType = Noegenesis | Koch | Mandelbrot | Julia | Hybrid

datatype RotationAxis = Both | Horizontal | Vertical

datatype Color = Color (cr: real) (cg: real) (cb: real)

datatype MaterialKind = MeshStandardMaterial | LineBasicMaterial | MeshBasicMaterial

record Material =
  kind :: MaterialKind
  color :: nat
  opacity :: real
  transparent :: bool
  vertexColors :: bool
  materialDisposed :: bool

record BufferGeometry =
  position :: "Vector3 list"
  colorAttribute :: "Color list option"
  geometryDisposed :: bool

record Heap =
  geometries :: "BufferGeometry list"
  materials :: "Material list"

datatype Layer = Principal | Interior | Exterior

datatype ObjectKind = Mesh | LineSegments

record Object3D =
  objectKind :: ObjectKind
  geometry :: nat
  material :: nat
  castShadow :: bool
  receiveShadow :: bool
  parent :: Layer

record Group =
  children :: "Object3D list"
  scale :: real
  rotationX :: real
  rotationY :: real

text \<open>
  The structure group of one generated structure: its identity and its three children,
  the layer groups, in the order they are added.
\<close>

record StructureGroup =
  objectId :: nat
  principalChild :: Group
  interiorChild :: Group
  exteriorChild :: Group

text \<open>
  \<^verbatim>\<open>FractalArtifacts\<close>. In the source \<^verbatim>\<open>structureGroup\<close> is a group whose children are
  the three layer groups the other fields point to; here the layer groups are stored once
  and \<open>structureGroup\<close> is assembled from them.
\<close>

record FractalArtifacts =
  structureId :: nat
  geoidePrincipalGroup :: Group
  geoideInteriorGroup :: Group
  geoideExteriorGroup :: Group
  mainFractalMeshes :: "Object3D list"
  mainLineMeshes :: "Object3D list"

definition structureGroup :: "FractalArtifacts \<Rightarrow> StructureGroup" where
  "structureGroup a =
     \<lparr>objectId = structureId a, principalChild = geoidePrincipalGroup a,
      interiorChild = geoideInteriorGroup a, exteriorChild = geoideExteriorGroup a\<rparr>"

text \<open>The heap, the structure groups that are children of the scene, and the next object identity.\<close>

record World =
  heap :: Heap
  sceneChildren :: "nat list"
  nextObjectId :: nat

definition traverse :: "StructureGroup \<Rightarrow> Object3D list" where
  \<comment> \<open>the meshes and line segments \<^verbatim>\<open>group.traverse\<close> visits, in its order\<close>
  "traverse g = children (principalChild g) @ children (interiorChild g)
                  @ children (exteriorChild g)"

definition traverseMaterials :: "StructureGroup \<Rightarrow> (Material \<Rightarrow> Material) \<Rightarrow> Heap \<Rightarrow> Heap" where
  "traverseMaterials g callback h =
     fold (\<lambda>obj h. h\<lparr>materials := (materials h)[material obj := callback (materials h ! material obj)]\<rparr>)
       (traverse g) h"

definition disposeObject :: "Object3D \<Rightarrow> Heap \<Rightarrow> Heap" where
  "disposeObject obj h =
     (let h = h\<lparr>geometries := (geometries h)[geometry obj :=
                  (geometries h ! geometry obj)\<lparr>geometryDisposed := True\<rparr>]\<rparr>
      in h\<lparr>materials := (materials h)[material obj :=
                  (materials h ! material obj)\<lparr>materialDisposed := True\<rparr>]\<rparr>)"

definition disposeGroup :: "StructureGroup \<Rightarrow> Heap \<Rightarrow> Heap" where
  "disposeGroup g h = fold disposeObject (traverse g) h"

definition newBufferGeometry :: "Vector3 list \<Rightarrow> Heap \<Rightarrow> nat \<times> Heap" where
  \<comment> \<open>\<^verbatim>\<open>new BufferGeometry().setAttribute('position', new Float32BufferAttribute(vs.flat(), 3))\<close>\<close>
  "newBufferGeometry vs h =
     (length (geometries h),
      h\<lparr>geometries := geometries h
           @ [\<lparr>position = vs, colorAttribute = None, geometryDisposed = False\<rparr>]\<rparr>)"

definition newMaterial :: "Material \<Rightarrow> Heap \<Rightarrow> nat \<times> Heap" where
  \<comment> \<open>a material constructor or \<^verbatim>\<open>clone()\<close>: a fresh object with the given fields\<close>
  "newMaterial m h = (length (materials h), h\<lparr>materials := materials h @ [m]\<rparr>)"

definition newObject :: "ObjectKind \<Rightarrow> nat \<Rightarrow> nat \<Rightarrow> Layer \<Rightarrow> Object3D" where
  "newObject k g m l =
     \<lparr>objectKind = k, geometry = g, material = m, castShadow = False, receiveShadow = False,
      parent = l\<rparr>"

definition mainMaterial :: Material where
  \<comment> \<open>\<^verbatim>\<open>MeshStandardMaterial({ color: 0xff8c00, ... })\<close>\<close>
  "mainMaterial = \<lparr>kind = MeshStandardMaterial, color = 16747520, opacity = 1,
     transparent = False, vertexColors = False, materialDisposed = False\<rparr>"

definition lineMaterial :: Material where
  \<comment> \<open>\<^verbatim>\<open>LineBasicMaterial({ color: 0xff8c00 })\<close>\<close>
  "lineMaterial = \<lparr>kind = LineBasicMaterial, color = 16747520, opacity = 1,
     transparent = False, vertexColors = False, materialDisposed = False\<rparr>"

definition dualMaterial :: Material where
  \<comment> \<open>\<^verbatim>\<open>MeshBasicMaterial({ color: 0x000000, ... })\<close>\<close>
  "dualMaterial = \<lparr>kind = MeshBasicMaterial, color = 0, opacity = 1,
     transparent = False, vertexColors = False, materialDisposed = False\<rparr>"

definition juliaMaterial :: Material where
  \<comment> \<open>\<^verbatim>\<open>MeshStandardMaterial({ color: 0x9400D3, ... })\<close>\<close>
  "juliaMaterial = \<lparr>kind = MeshStandardMaterial, color = 9699539, opacity = 1,
     transparent = False, vertexColors = False, materialDisposed = False\<rparr>"

definition juliaLineMaterial :: Material where
  \<comment> \<open>\<^verbatim>\<open>LineBasicMaterial({ color: 0xDA70D6 })\<close>\<close>
  "juliaLineMaterial = \<lparr>kind = LineBasicMaterial, color = 14315734, opacity = 1,
     transparent = False, vertexColors = False, materialDisposed = False\<rparr>"

section \<open>Mesh assembly\<close>

text \<open>
  The loop \<^verbatim>\<open>for (i = 0; i < positions.count; i += 3)\<close> reads three consecutive
  positions per round. The position count of the base polyhedron is a multiple of three,
  so no round reads past the end.
\<close>

fun forEachSeed :: "(Vector3 \<Rightarrow> Vector3 \<Rightarrow> Vector3 \<Rightarrow> 'a \<Rightarrow> 'a) \<Rightarrow> Vector3 list \<Rightarrow> 'a \<Rightarrow> 'a" where
  "forEachSeed body (v1 # v2 # v3 # rest) acc = forEachSeed body rest (body v1 v2 v3 acc)"
| "forEachSeed body _ acc = acc"

fun lineVerticesOf :: "VertexList \<Rightarrow> VertexList" where
  \<comment> \<open>the three edges of every consecutive triangle\<close>
  "lineVerticesOf (v1 # v2 # v3 # rest) = [v1, v2, v2, v3, v3, v1] @ lineVerticesOf rest"
| "lineVerticesOf _ = []"

definition generateStructure :: "nat \<Rightarrow> FractalType \<Rightarrow> World \<Rightarrow> FractalArtifacts \<times> World" where
  "generateStructure currentDepth currentFractalType w =
     (let sid = nextObjectId w;
          w = w\<lparr>sceneChildren := sceneChildren w @ [sid], nextObjectId := nextObjectId w + 1\<rparr>;
          radius = 7.5;
          positions = IcosahedronGeometry radius 1;
          h = heap w
      in if currentFractalType = Hybrid
         then
           (let (kochVertices, (sierpinskiMainVertices, sierpinskiDualVertices), juliaVertices) =
                  forEachSeed (\<lambda>v1 v2 v3 (k, s, j).
                      (buildKoch v1 v2 v3 currentDepth k,
                       buildFractal v1 v2 v3 currentDepth s,
                       buildJulia v1 v2 v3 currentDepth j))
                    positions ([], ([], []), []);
                (kochGeom, h) = newBufferGeometry kochVertices h;
                (kochMat, h) = newMaterial mainMaterial h;
                kochMesh = (newObject Mesh kochGeom kochMat Exterior)
                             \<lparr>castShadow := True, receiveShadow := True\<rparr>;
                (kochLineGeom, h) = newBufferGeometry (lineVerticesOf kochVertices) h;
                (kochLineMat, h) = newMaterial lineMaterial h;
                kochLines = newObject LineSegments kochLineGeom kochLineMat Exterior;
                (sierpinskiGeom, h) = newBufferGeometry sierpinskiMainVertices h;
                (sierpinskiMat, h) = newMaterial mainMaterial h;
                sierpinskiMesh = (newObject Mesh sierpinskiGeom sierpinskiMat Principal)
                                   \<lparr>castShadow := True, receiveShadow := True\<rparr>;
                (sierpinskiLineGeom, h) =
                   newBufferGeometry (lineVerticesOf sierpinskiMainVertices) h;
                (sierpinskiLineMat, h) = newMaterial lineMaterial h;
                sierpinskiLines =
                   newObject LineSegments sierpinskiLineGeom sierpinskiLineMat Principal;
                (juliaGeom, h) = newBufferGeometry juliaVertices h;
                (juliaMat, h) = newMaterial juliaMaterial h;
                juliaMesh = (newObject Mesh juliaGeom juliaMat Interior)
                              \<lparr>castShadow := True, receiveShadow := True\<rparr>;
                (juliaLineGeom, h) = newBufferGeometry (lineVerticesOf juliaVertices) h;
                (juliaLineMat, h) = newMaterial juliaLineMaterial h;
                juliaLines = newObject LineSegments juliaLineGeom juliaLineMat Interior
            in (\<lparr>structureId = sid,
                 geoidePrincipalGroup = \<lparr>children = [sierpinskiMesh, sierpinskiLines],
                    scale = 1, rotationX = 0, rotationY = 0\<rparr>,
                 geoideInteriorGroup = \<lparr>children = [juliaMesh, juliaLines],
                    scale = 0.5, rotationX = 0, rotationY = 0\<rparr>,
                 geoideExteriorGroup = \<lparr>children = [kochMesh, kochLines],
                    scale = 1.5, rotationX = 0, rotationY = 0\<rparr>,
                 mainFractalMeshes = [kochMesh, sierpinskiMesh, juliaMesh],
                 mainLineMeshes = [kochLines, sierpinskiLines, juliaLines]\<rparr>,
                w\<lparr>heap := h\<rparr>))
         else
           (let (mainVertices, dualVertices) =
                  forEachSeed (\<lambda>v1 v2 v3 (mainVertices, dualVertices).
                      if currentFractalType = Noegenesis
                      then buildFractal v1 v2 v3 currentDepth (mainVertices, dualVertices)
                      else if currentFractalType = Koch
                      then (buildKoch v1 v2 v3 currentDepth mainVertices, dualVertices)
                      else if currentFractalType = Mandelbrot
                      then (buildMandelbrot v1 v2 v3 currentDepth mainVertices, dualVertices)
                      else if currentFractalType = Julia
                      then (buildJulia v1 v2 v3 currentDepth mainVertices, dualVertices)
                      else (mainVertices, dualVertices))
                    positions ([], []);
                (mainGeom, h) = newBufferGeometry mainVertices h;
                (dualGeom, h) = newBufferGeometry dualVertices h;
                (lineGeom, h) = newBufferGeometry (lineVerticesOf mainVertices) h;
                (mainMat1, h) = newMaterial mainMaterial h;
                mainFractalMesh1 = (newObject Mesh mainGeom mainMat1 Principal)
                                     \<lparr>castShadow := True, receiveShadow := True\<rparr>;
                (lineMat1, h) = newMaterial lineMaterial h;
                mainFractalLines1 = newObject LineSegments lineGeom lineMat1 Principal;
                (dualMat2, h) = newMaterial dualMaterial h;
                dualFractalMesh2 = (newObject Mesh dualGeom dualMat2 Interior)
                                     \<lparr>castShadow := False, receiveShadow := True\<rparr>;
                (mainMat3, h) = newMaterial mainMaterial h;
                mainFractalMesh3 = (newObject Mesh mainGeom mainMat3 Exterior)
                                     \<lparr>castShadow := True, receiveShadow := True\<rparr>;
                (lineMat3, h) = newMaterial lineMaterial h;
                mainFractalLines3 = newObject LineSegments lineGeom lineMat3 Exterior;
                (dualMat3, h) = newMaterial dualMaterial h;
                dualFractalMesh3 = (newObject Mesh dualGeom dualMat3 Exterior)
                                     \<lparr>castShadow := False, receiveShadow := True\<rparr>
            in (\<lparr>structureId = sid,
                 geoidePrincipalGroup = \<lparr>children = [mainFractalMesh1, mainFractalLines1],
                    scale = 1, rotationX = 0, rotationY = 0\<rparr>,
                 geoideInteriorGroup = \<lparr>children = [dualFractalMesh2],
                    scale = 0.5, rotationX = 0, rotationY = 0\<rparr>,
                 geoideExteriorGroup =
                   \<lparr>children = [mainFractalMesh3, mainFractalLines3, dualFractalMesh3],
                    scale = 1.5, rotationX = 0, rotationY = 0\<rparr>,
                 mainFractalMeshes = [mainFractalMesh1, mainFractalMesh3],
                 mainLineMeshes = [mainFractalLines1, mainFractalLines3]\<rparr>,
                w\<lparr>heap := h\<rparr>)))"

definition surfaceTriangles :: "Heap \<Rightarrow> Group \<Rightarrow> nat" where
  \<comment> \<open>the triangles of the surface meshes of a layer\<close>
  "surfaceTriangles h g =
     sum_list (map (\<lambda>obj. triangleCount (position (geometries h ! geometry obj)))
                (filter (\<lambda>obj. objectKind obj = Mesh) (children g)))"

definition emptyWorld :: World where
  "emptyWorld = \<lparr>heap = \<lparr>geometries = [], materials = []\<rparr>, sceneChildren = [], nextObjectId = 0\<rparr>"

section \<open>The render loop: transition, rotation and Doppler colours\<close>

record RotationControls =
  principal :: bool
  interior :: bool
  exterior :: bool

text \<open>The parameter snapshot the loop reads each frame (the fields the modelled code uses).\<close>

record SceneProps =
  depth :: nat
  speed :: real
  fractalType :: FractalType
  rotationAxis :: RotationAxis
  rotationControls :: RotationControls
  isDopplerEffect :: bool

text \<open>
  The variables of the effect closure that the frame callback reads and writes. The camera
  position is moved by input handling, which is not modelled: it is a component of the
  state that the modelled code only reads.
\<close>

record SceneState =
  world :: World
  activeArtifacts :: FractalArtifacts
  currentDepth :: nat
  currentFractalType :: FractalType
  fadingOutGroupRef :: "StructureGroup option"
  transitionStartTimeRef :: "real option"
  cameraPosition :: Vector3

definition TRANSITION_DURATION :: real where
  "TRANSITION_DURATION = 0.75"

definition sceneRemove :: "StructureGroup \<Rightarrow> World \<Rightarrow> World" where
  \<comment> \<open>\<^verbatim>\<open>scene.remove(group)\<close>\<close>
  "sceneRemove g w = w\<lparr>sceneChildren := removeAll (objectId g) (sceneChildren w)\<rparr>"

definition initialState :: "SceneProps \<Rightarrow> Vector3 \<Rightarrow> SceneState" where
  \<comment> \<open>the state when the first frame is requested\<close>
  "initialState props cam =
     (let (artifacts, w) = generateStructure (depth props) (fractalType props) emptyWorld
      in \<lparr>world = w, activeArtifacts = artifacts, currentDepth = depth props,
          currentFractalType = fractalType props, fadingOutGroupRef = None,
          transitionStartTimeRef = None, cameraPosition = cam\<rparr>)"

definition handleTransitionAnimation :: "real \<Rightarrow> SceneState \<Rightarrow> SceneState" where
  "handleTransitionAnimation time s =
     (case (fadingOutGroupRef s, transitionStartTimeRef s) of
        (Some fadingOut, Some start) \<Rightarrow>
          (let progress = min ((time - start) / TRANSITION_DURATION) 1.0;
               active = structureGroup (activeArtifacts s);
               h = traverseMaterials fadingOut (\<lambda>mat. mat\<lparr>opacity := 1.0 - progress\<rparr>)
                     (heap (world s));
               h = traverseMaterials active (\<lambda>mat. mat\<lparr>opacity := progress\<rparr>) h
           in if progress \<ge> 1.0
              then (let w = sceneRemove fadingOut ((world s)\<lparr>heap := h\<rparr>);
                        h = disposeGroup fadingOut (heap w);
                        h = traverseMaterials active
                              (\<lambda>mat. mat\<lparr>transparent := False, opacity := 1.0\<rparr>) h
                    in s\<lparr>world := w\<lparr>heap := h\<rparr>, fadingOutGroupRef := None,
                         transitionStartTimeRef := None\<rparr>)
              else s\<lparr>world := (world s)\<lparr>heap := h\<rparr>\<rparr>)
      | _ \<Rightarrow> s)"

definition handlePropChanges :: "SceneProps \<Rightarrow> real \<Rightarrow> SceneState \<Rightarrow> SceneState" where
  "handlePropChanges state time s =
     (if currentDepth s \<noteq> depth state \<or> currentFractalType s \<noteq> fractalType state
      then
        (let w = (case fadingOutGroupRef s of
                    Some fadingOut \<Rightarrow>
                      (let w = sceneRemove fadingOut (world s)
                       in w\<lparr>heap := disposeGroup fadingOut (heap w)\<rparr>)
                  | None \<Rightarrow> world s);
             fadingOut = structureGroup (activeArtifacts s);
             w = w\<lparr>heap := traverseMaterials fadingOut (\<lambda>mat. mat\<lparr>transparent := True\<rparr>)
                              (heap w)\<rparr>;
             (newArtifacts, w) = generateStructure (depth state) (fractalType state) w;
             w = w\<lparr>heap := traverseMaterials (structureGroup newArtifacts)
                              (\<lambda>mat. mat\<lparr>transparent := True, opacity := 0\<rparr>) (heap w)\<rparr>
         in s\<lparr>world := w, fadingOutGroupRef := Some fadingOut,
              transitionStartTimeRef := Some time, currentDepth := depth state,
              currentFractalType := fractalType state, activeArtifacts := newArtifacts\<rparr>)
      else s)"

definition applyRotation :: "real \<Rightarrow> RotationAxis \<Rightarrow> Group \<Rightarrow> real \<Rightarrow> Group" where
  "applyRotation frameSpeed axis g speedMultiplier =
     (let effectiveSpeed = frameSpeed * speedMultiplier
      in if axis = Horizontal then g\<lparr>rotationY := rotationY g + effectiveSpeed\<rparr>
         else if axis = Vertical then g\<lparr>rotationX := rotationX g + effectiveSpeed\<rparr>
         else g\<lparr>rotationY := rotationY g + effectiveSpeed,
                rotationX := rotationX g + effectiveSpeed * 0.7\<rparr>)"

definition autoRotate :: "SceneProps \<Rightarrow> FractalArtifacts \<Rightarrow> FractalArtifacts" where
  "autoRotate state a =
     (let frameSpeed = speed state / 20000
      in if frameSpeed > 0
         then (let a = (if principal (rotationControls state)
                        then a\<lparr>geoidePrincipalGroup :=
                               applyRotation frameSpeed (rotationAxis state) (geoidePrincipalGroup a) 1\<rparr>
                        else a);
                   a = (if interior (rotationControls state)
                        then a\<lparr>geoideInteriorGroup :=
                               applyRotation frameSpeed (rotationAxis state) (geoideInteriorGroup a) (- 0.5)\<rparr>
                        else a);
                   a = (if exterior (rotationControls state)
                        then a\<lparr>geoideExteriorGroup :=
                               applyRotation frameSpeed (rotationAxis state) (geoideExteriorGroup a) 0.2\<rparr>
                        else a)
               in a)
         else a)"

subsection \<open>Doppler colours\<close>

definition vdot :: "Vector3 \<Rightarrow> Vector3 \<Rightarrow> real" where
  "vdot a b = vx a * vx b + vy a * vy b + vz a * vz b"

definition vnegate :: "Vector3 \<Rightarrow> Vector3" where
  "vnegate a = Vector3 (- vx a) (- vy a) (- vz a)"

definition SRGBToLinear :: "real \<Rightarrow> real" where
  "SRGBToLinear c =
     (if c < 0.04045 then c * 0.0773993808
      else (c * 0.9478672986 + 0.0521327014) powr 2.4)"

definition colorOfHex :: "nat \<Rightarrow> Color" where
  \<comment> \<open>\<^verbatim>\<open>new THREE.Color(hex)\<close> under the library's colour management: the three bytes
      scaled to the unit interval and converted from sRGB to the linear working space\<close>
  "colorOfHex hex =
     Color (SRGBToLinear (real (hex div 65536 mod 256) / 255))
           (SRGBToLinear (real (hex div 256 mod 256) / 255))
           (SRGBToLinear (real (hex mod 256) / 255))"

definition colorLerp :: "Color \<Rightarrow> Color \<Rightarrow> real \<Rightarrow> Color" where
  "colorLerp a b alpha =
     Color (cr a + (cr b - cr a) * alpha) (cg a + (cg b - cg a) * alpha)
           (cb a + (cb b - cb a) * alpha)"

definition baseMainColor :: Color where
  "baseMainColor = colorOfHex 16747520"

definition blueshiftColor :: Color where
  "blueshiftColor = colorOfHex 16776960"

definition redshiftColor :: Color where
  "redshiftColor = colorOfHex 0"

definition layerGroup :: "StructureGroup \<Rightarrow> Layer \<Rightarrow> Group" where
  "layerGroup g l =
     (case l of Principal \<Rightarrow> principalChild g | Interior \<Rightarrow> interiorChild g
      | Exterior \<Rightarrow> exteriorChild g)"

definition applyMatrixWorld :: "Group \<Rightarrow> Vector3 \<Rightarrow> Vector3" where
  \<comment> \<open>\<^verbatim>\<open>applyMatrix4(mesh.matrixWorld)\<close> for a mesh of the layer group: the group's
      uniform scale, then its Euler rotation about x and y (order XYZ, no translation)\<close>
  "applyMatrixWorld g v =
     (let a = cos (rotationX g); b = sin (rotationX g);
          c = cos (rotationY g); d = sin (rotationY g);
          X = scale g * vx v; Y = scale g * vy v; Z = scale g * vz v
      in Vector3 (c * X + d * Z) (b * d * X + a * Y - b * c * Z)
                 (- a * d * X + b * Y + a * c * Z))"

definition angularVelocityOf :: "real \<Rightarrow> RotationAxis \<Rightarrow> Vector3" where
  "angularVelocityOf frameSpeed axis =
     (if axis = Horizontal then Vector3 0 (frameSpeed * 100) 0
      else if axis = Vertical then Vector3 (frameSpeed * 100) 0 0
      else Vector3 (frameSpeed * 70) (frameSpeed * 100) 0)"

definition relativeSpeed :: "Vector3 \<Rightarrow> Vector3 \<Rightarrow> Vector3 \<Rightarrow> real" where
  "relativeSpeed angularVelocity camera tempVec =
     (let linearVelocity = vnegate (crossVectors tempVec angularVelocity);
          viewVector = vnormalize (subVectors camera tempVec)
      in vdot linearVelocity viewVector)"

definition dopplerColor :: "real \<Rightarrow> Color" where
  "dopplerColor relSpeed =
     (if relSpeed > 0
      then colorLerp baseMainColor blueshiftColor (min (relSpeed * 0.17) 1.0)
      else colorLerp baseMainColor redshiftColor (min (- relSpeed * 0.17) 1.0))"

definition vertexColorsFor :: "Vector3 \<Rightarrow> Vector3 \<Rightarrow> Group \<Rightarrow> Vector3 list \<Rightarrow> Color list" where
  \<comment> \<open>the inner loop over \<^verbatim>\<open>positions.count\<close>: one colour per vertex\<close>
  "vertexColorsFor angularVelocity camera g positions =
     map (\<lambda>p. dopplerColor (relativeSpeed angularVelocity camera (applyMatrixWorld g p)))
       positions"

definition recolorMesh :: "Vector3 \<Rightarrow> Vector3 \<Rightarrow> StructureGroup \<Rightarrow> Object3D \<Rightarrow> Heap \<Rightarrow> Heap" where
  \<comment> \<open>the body of \<^verbatim>\<open>mainFractalMeshes.forEach\<close>\<close>
  "recolorMesh angularVelocity camera sg mesh h =
     (let h = h\<lparr>materials := (materials h)[material mesh :=
                   (materials h ! material mesh)\<lparr>vertexColors := True\<rparr>]\<rparr>;
          geom = geometries h ! geometry mesh;
          colors = vertexColorsFor angularVelocity camera (layerGroup sg (parent mesh))
                     (position geom)
      in h\<lparr>geometries := (geometries h)[geometry mesh :=
                geom\<lparr>colorAttribute := Some colors\<rparr>]\<rparr>)"

definition updateDopplerColors ::
  "real \<Rightarrow> RotationAxis \<Rightarrow> StructureGroup \<Rightarrow> Object3D list \<Rightarrow> Vector3 \<Rightarrow> Heap \<Rightarrow> Heap" where
  "updateDopplerColors frameSpeed axis sg meshes camera h =
     fold (recolorMesh (angularVelocityOf frameSpeed axis) camera sg) meshes h"

definition animate :: "SceneProps \<Rightarrow> real \<Rightarrow> SceneState \<Rightarrow> SceneState" where
  "animate state time s =
     (let s = handleTransitionAnimation time s;
          s = handlePropChanges state time s;
          s = s\<lparr>activeArtifacts := autoRotate state (activeArtifacts s)\<rparr>;
          frameSpeed = speed state / 20000
      in if isDopplerEffect state
         then s\<lparr>world := (world s)\<lparr>heap :=
                  updateDopplerColors frameSpeed (rotationAxis state)
                    (structureGroup (activeArtifacts s)) (mainFractalMeshes (activeArtifacts s))
                    (cameraPosition s) (heap (world s))\<rparr>\<rparr>
         else s)"

section \<open>Vocabulary of the properties\<close>

subsection \<open>Closed forms of the result of \<open>generateStructure\<close>\<close>

text \<open>
  The artifacts and the world \<open>generateStructure\<close> returns, written out with the
  references it allocates; the properties section proves them equal to its result.
\<close>

definition freshGeometry :: "Vector3 list \<Rightarrow> BufferGeometry" where
  "freshGeometry vs = \<lparr>position = vs, colorAttribute = None, geometryDisposed = False\<rparr>"

definition plainVertexLists :: "nat \<Rightarrow> FractalType \<Rightarrow> VertexList \<times> VertexList" where
  \<comment> \<open>\<^verbatim>\<open>mainVertices\<close> and \<^verbatim>\<open>dualVertices\<close> after the seed loop of the non-hybrid branch\<close>
  "plainVertexLists d ft =
     forEachSeed (\<lambda>v1 v2 v3 (mainVertices, dualVertices).
         if ft = Noegenesis then buildFractal v1 v2 v3 d (mainVertices, dualVertices)
         else if ft = Koch then (buildKoch v1 v2 v3 d mainVertices, dualVertices)
         else if ft = Mandelbrot then (buildMandelbrot v1 v2 v3 d mainVertices, dualVertices)
         else if ft = Julia then (buildJulia v1 v2 v3 d mainVertices, dualVertices)
         else (mainVertices, dualVertices))
       (IcosahedronGeometry 7.5 1) ([], [])"

definition hybridVertexLists ::
  "nat \<Rightarrow> VertexList \<times> (VertexList \<times> VertexList) \<times> VertexList" where
  \<comment> \<open>\<^verbatim>\<open>kochVertices\<close>, the two Sierpinski lists and \<^verbatim>\<open>juliaVertices\<close> after the seed
      loop of the hybrid branch\<close>
  "hybridVertexLists d =
     forEachSeed (\<lambda>v1 v2 v3 (k, s, j).
         (buildKoch v1 v2 v3 d k, buildFractal v1 v2 v3 d s, buildJulia v1 v2 v3 d j))
       (IcosahedronGeometry 7.5 1) ([], ([], []), [])"

definition surfaceMesh :: "nat \<Rightarrow> nat \<Rightarrow> Layer \<Rightarrow> Object3D" where
  "surfaceMesh g m l = \<lparr>objectKind = Mesh, geometry = g, material = m, castShadow = True,
     receiveShadow = True, parent = l\<rparr>"

definition dualMesh :: "nat \<Rightarrow> nat \<Rightarrow> Layer \<Rightarrow> Object3D" where
  "dualMesh g m l = \<lparr>objectKind = Mesh, geometry = g, material = m, castShadow = False,
     receiveShadow = True, parent = l\<rparr>"

definition wireframe :: "nat \<Rightarrow> nat \<Rightarrow> Layer \<Rightarrow> Object3D" where
  "wireframe g m l = \<lparr>objectKind = LineSegments, geometry = g, material = m,
     castShadow = False, receiveShadow = False, parent = l\<rparr>"

definition layerOf :: "Object3D list \<Rightarrow> real \<Rightarrow> Group" where
  "layerOf objs s = \<lparr>children = objs, scale = s, rotationX = 0, rotationY = 0\<rparr>"

definition plainArtifacts :: "nat \<Rightarrow> nat \<Rightarrow> nat \<Rightarrow> FractalArtifacts" where
  "plainArtifacts sid ng nm =
     \<lparr>structureId = sid,
      geoidePrincipalGroup =
        layerOf [surfaceMesh ng nm Principal, wireframe (ng + 2) (nm + 1) Principal] 1,
      geoideInteriorGroup = layerOf [dualMesh (ng + 1) (nm + 2) Interior] 0.5,
      geoideExteriorGroup =
        layerOf [surfaceMesh ng (nm + 3) Exterior, wireframe (ng + 2) (nm + 4) Exterior,
                 dualMesh (ng + 1) (nm + 5) Exterior] 1.5,
      mainFractalMeshes = [surfaceMesh ng nm Principal, surfaceMesh ng (nm + 3) Exterior],
      mainLineMeshes = [wireframe (ng + 2) (nm + 1) Principal,
                        wireframe (ng + 2) (nm + 4) Exterior]\<rparr>"

definition hybridArtifacts :: "nat \<Rightarrow> nat \<Rightarrow> nat \<Rightarrow> FractalArtifacts" where
  "hybridArtifacts sid ng nm =
     \<lparr>structureId = sid,
      geoidePrincipalGroup =
        layerOf [surfaceMesh (ng + 2) (nm + 2) Principal,
                 wireframe (ng + 3) (nm + 3) Principal] 1,
      geoideInteriorGroup =
        layerOf [surfaceMesh (ng + 4) (nm + 4) Interior,
                 wireframe (ng + 5) (nm + 5) Interior] 0.5,
      geoideExteriorGroup =
        layerOf [surfaceMesh ng nm Exterior, wireframe (ng + 1) (nm + 1) Exterior] 1.5,
      mainFractalMeshes = [surfaceMesh ng nm Exterior, surfaceMesh (ng + 2) (nm + 2) Principal,
                           surfaceMesh (ng + 4) (nm + 4) Interior],
      mainLineMeshes = [wireframe (ng + 1) (nm + 1) Exterior,
                        wireframe (ng + 3) (nm + 3) Principal,
                        wireframe (ng + 5) (nm + 5) Interior]\<rparr>"

definition grownWorld :: "World \<Rightarrow> BufferGeometry list \<Rightarrow> Material list \<Rightarrow> World" where
  "grownWorld w gs ms =
     \<lparr>heap = \<lparr>geometries = geometries (heap w) @ gs, materials = materials (heap w) @ ms\<rparr>,
      sceneChildren = sceneChildren w @ [nextObjectId w],
      nextObjectId = Suc (nextObjectId w)\<rparr>"

subsection \<open>Vocabulary of the lifecycle properties\<close>

definition geometryRefs :: "StructureGroup \<Rightarrow> nat set" where
  "geometryRefs g = geometry ` set (traverse g)"

definition materialRefs :: "StructureGroup \<Rightarrow> nat set" where
  "materialRefs g = material ` set (traverse g)"

definition live :: "Heap \<Rightarrow> StructureGroup \<Rightarrow> bool" where
  \<comment> \<open>the structure has objects, and every geometry and material of it is allocated and
      not released\<close>
  "live h g \<longleftrightarrow>
     traverse g \<noteq> [] \<and>
     list_all (\<lambda>obj. geometry obj < length (geometries h) \<and> material obj < length (materials h)
                 \<and> \<not> geometryDisposed (geometries h ! geometry obj)
                 \<and> \<not> materialDisposed (materials h ! material obj))
       (traverse g)"

definition destroyed :: "Heap \<Rightarrow> StructureGroup \<Rightarrow> bool" where
  \<comment> \<open>every geometry and every material of the structure is released\<close>
  "destroyed h g \<longleftrightarrow>
     list_all (\<lambda>obj. geometryDisposed (geometries h ! geometry obj)
                 \<and> materialDisposed (materials h ! material obj))
       (traverse g)"

definition disposedGeometries :: "Heap \<Rightarrow> nat list" where
  "disposedGeometries h =
     filter (\<lambda>r. geometryDisposed (geometries h ! r)) [0 ..< length (geometries h)]"

definition disposedMaterials :: "Heap \<Rightarrow> nat list" where
  "disposedMaterials h =
     filter (\<lambda>r. materialDisposed (materials h ! r)) [0 ..< length (materials h)]"

definition structureOpacity :: "Heap \<Rightarrow> StructureGroup \<Rightarrow> real option" where
  \<comment> \<open>the opacity all materials of the structure have, when they have the same\<close>
  "structureOpacity h g =
     (case remdups (map (\<lambda>obj. opacity (materials h ! material obj)) (traverse g)) of
        [x] \<Rightarrow> Some x
      | _ \<Rightarrow> None)"

definition structureTransparent :: "Heap \<Rightarrow> StructureGroup \<Rightarrow> bool option" where
  \<comment> \<open>the \<^verbatim>\<open>transparent\<close> flag all materials of the structure have, when they agree\<close>
  "structureTransparent h g =
     (case remdups (map (\<lambda>obj. transparent (materials h ! material obj)) (traverse g)) of
        [x] \<Rightarrow> Some x
      | _ \<Rightarrow> None)"

definition sceneInv :: "SceneState \<Rightarrow> bool" where
  \<comment> \<open>what holds between frames: the scene holds the active structure and, during a
      transition, the outgoing one before it; both are live and share nothing\<close>
  "sceneInv s \<longleftrightarrow>
     (let h = heap (world s); active = structureGroup (activeArtifacts s)
      in live h active
         \<and> objectId active < nextObjectId (world s)
         \<and> set (mainFractalMeshes (activeArtifacts s)) \<subseteq> set (traverse active)
         \<and> (case fadingOutGroupRef s of
               None \<Rightarrow> transitionStartTimeRef s = None
                        \<and> sceneChildren (world s) = [objectId active]
             | Some fadingOut \<Rightarrow>
                 transitionStartTimeRef s \<noteq> None
                 \<and> sceneChildren (world s) = [objectId fadingOut, objectId active]
                 \<and> objectId fadingOut < objectId active
                 \<and> live h fadingOut
                 \<and> geometryRefs fadingOut \<inter> geometryRefs active = {}
                 \<and> materialRefs fadingOut \<inter> materialRefs active = {}))"

subsection \<open>Intermediate states of a frame\<close>

definition fadedHeap :: "real \<Rightarrow> SceneState \<Rightarrow> StructureGroup \<Rightarrow> real \<Rightarrow> Heap" where
  \<comment> \<open>the heap once the transition block has set the two opacities\<close>
  "fadedHeap time s fg t0 =
     traverseMaterials (structureGroup (activeArtifacts s))
       (\<lambda>mat. mat\<lparr>opacity := min ((time - t0) / TRANSITION_DURATION) 1\<rparr>)
       (traverseMaterials fg
          (\<lambda>mat. mat\<lparr>opacity := 1 - min ((time - t0) / TRANSITION_DURATION) 1\<rparr>)
          (heap (world s)))"

definition clearedWorld :: "SceneState \<Rightarrow> World" where
  \<comment> \<open>the world once the block has removed and disposed a structure that was still fading\<close>
  "clearedWorld s =
     (case fadingOutGroupRef s of
        Some fadingOut \<Rightarrow>
          (let w = sceneRemove fadingOut (world s)
           in w\<lparr>heap := disposeGroup fadingOut (heap w)\<rparr>)
      | None \<Rightarrow> world s)"

definition markedWorld :: "SceneState \<Rightarrow> World" where
  \<comment> \<open>then, the materials of the structure that becomes the outgoing one marked transparent\<close>
  "markedWorld s =
     (clearedWorld s)\<lparr>heap := traverseMaterials (structureGroup (activeArtifacts s))
                               (\<lambda>mat. mat\<lparr>transparent := True\<rparr>) (heap (clearedWorld s))\<rparr>"

definition afterBlocks :: "SceneProps \<Rightarrow> real \<Rightarrow> SceneState \<Rightarrow> SceneState" where
  \<comment> \<open>the state after the transition block and the parameter-change block of a frame\<close>
  "afterBlocks state time s = handlePropChanges state time (handleTransitionAnimation time s)"

subsection \<open>Example states\<close>

text \<open>The default parameters of the application and the camera position the scene starts with.\<close>

definition defaultControlsState :: SceneProps where
  "defaultControlsState =
     \<lparr>depth = 3, speed = 20, fractalType = Noegenesis, rotationAxis = Both,
      rotationControls = \<lparr>principal = True, interior = True, exterior = True\<rparr>,
      isDopplerEffect = False\<rparr>"

definition initialCamera :: Vector3 where
  "initialCamera = Vector3 0 0 20"

text \<open>
  Two states of a running scene: a transition triggered at time 0 by a change of depth, and
  the state after a second change arrives at time 0.3, while that transition is running.
\<close>

definition transitioningExample :: SceneState where
  "transitioningExample =
     animate (defaultControlsState\<lparr>depth := 2\<rparr>) 0
       (initialState defaultControlsState initialCamera)"


section \<open>Properties\<close>

lemma buildHole_length:
  "length (buildHole v1 v2 v3 d hs) = length hs + 3 * 3 ^ d"
  by (induction d arbitrary: v1 v2 v3 hs) (simp_all add: Let_def)

lemma buildFractal_main_length:
  "length (fst (buildFractal v1 v2 v3 d ls)) = length (fst ls) + 3 * 3 ^ d"
proof (induction d arbitrary: v1 v2 v3 ls)
  case 0
  then show ?case by (cases ls) simp
next
  case (Suc d)
  then show ?case by (cases ls) (simp add: Let_def)
qed

lemma kochEmitted_closed: "2 * kochEmitted d + 3 = 5 * 3 ^ d"
  by (induction d) simp_all

lemma kochEmitted_div: "kochEmitted d = (5 * 3 ^ d - 3) div 2"
proof -
  have "5 * 3 ^ d - 3 = 2 * kochEmitted d"
    using kochEmitted_closed [of d] by arith
  then show ?thesis by simp
qed

lemma buildKoch_length:
  "length (buildKoch v1 v2 v3 d vs) = length vs + 3 * kochEmitted d"
  by (induction d arbitrary: v1 v2 v3 vs) (simp_all add: Let_def)

lemma buildHole_prefix: "prefix hs (buildHole v1 v2 v3 d hs)"
proof (induction d arbitrary: v1 v2 v3 hs)
  case 0
  show ?case by simp
next
  case (Suc d)
  show ?case
    by (simp add: Let_def) (meson Suc.IH prefix_order.trans)
qed

lemma buildFractal_main_prefix: "prefix (fst ls) (fst (buildFractal v1 v2 v3 d ls))"
proof (induction d arbitrary: v1 v2 v3 ls)
  case 0
  show ?case by (cases ls) simp
next
  case (Suc d)
  define l1 where "l1 = buildFractal v1 (midpoint v1 v2) (midpoint v3 v1) d ls"
  define l2 where "l2 = buildFractal (midpoint v1 v2) v2 (midpoint v2 v3) d l1"
  define l3 where "l3 = buildFractal (midpoint v3 v1) (midpoint v2 v3) v3 d l2"
  have "prefix (fst ls) (fst l1)" "prefix (fst l1) (fst l2)" "prefix (fst l2) (fst l3)"
    unfolding l1_def l2_def l3_def by (rule Suc.IH)+
  then have "prefix (fst ls) (fst l3)"
    by (blast intro: prefix_order.trans)
  moreover have "fst (buildFractal v1 v2 v3 (Suc d) ls) = fst l3"
    by (cases ls) (simp add: Let_def l1_def l2_def l3_def)
  ultimately show ?case by simp
qed

lemma buildKoch_prefix: "prefix vs (buildKoch v1 v2 v3 d vs)"
proof (induction d arbitrary: v1 v2 v3 vs)
  case 0
  show ?case by simp
next
  case (Suc d)
  define l1 where "l1 = buildKoch v1 (midpoint v1 v2) (midpoint v3 v1) d vs"
  define l2 where "l2 = buildKoch (midpoint v1 v2) v2 (midpoint v2 v3) d l1"
  define l3 where "l3 = buildKoch (midpoint v3 v1) (midpoint v2 v3) v3 d l2"
  have "prefix vs l1" "prefix l1 l2" "prefix l2 l3"
    unfolding l1_def l2_def l3_def by (rule Suc.IH)+
  then have "prefix vs l3"
    by (blast intro: prefix_order.trans)
  moreover have "\<exists>zs. buildKoch v1 v2 v3 (Suc d) vs = l3 @ zs"
    by (simp add: Let_def l1_def l2_def l3_def)
  ultimately show ?case
    by (auto simp del: buildKoch.simps intro: prefix_prefix)
qed

lemma prefix_take_eq: "prefix xs ys \<Longrightarrow> take (length xs) ys = xs"
  by (auto simp: prefix_def)

lemma kochEmitted_small: "4 ^ d < kochEmitted d" if "d = 1 \<or> d = 2 \<or> d = 3"
  using that by (auto simp: numeral_eq_Suc)

lemma kochEmitted_large: "4 \<le> d \<Longrightarrow> kochEmitted d + 3 \<le> 4 ^ d"
proof (induction d rule: nat_induct_at_least)
  case base
  show ?case by (simp add: numeral_eq_Suc)
next
  case (Suc n)
  then show ?case by simp
qed

lemma kochEmitted_pow4: "kochEmitted d = 4 ^ d \<longleftrightarrow> d = 0"
proof (cases "d = 0")
  case True
  then show ?thesis by simp
next
  case False
  consider "d = 1 \<or> d = 2 \<or> d = 3" | "4 \<le> d" using False by arith
  then have "kochEmitted d \<noteq> 4 ^ d"
  proof cases
    case 1
    then show ?thesis using kochEmitted_small [of d] by simp
  next
    case 2
    then show ?thesis using kochEmitted_large [of d] by simp
  qed
  with False show ?thesis by simp
qed

subsection \<open>Triangle counts of the base and Koch algorithms\<close>

text \<open>
  C3. For every depth and every seed triangle, \<^verbatim>\<open>buildFractal\<close> leaves the entries
  already in its main list in place and pushes exactly \<open>3 ^ d\<close> triangles
  (\<open>3 * 3 ^ d\<close> vertices) after them.
\<close>

theorem buildFractal_emits_pow3:
  "take (length mainList) (fst (buildFractal v1 v2 v3 d (mainList, dualList))) = mainList
   \<and> length (emitted mainList (fst (buildFractal v1 v2 v3 d (mainList, dualList)))) = 3 * 3 ^ d
   \<and> triangleCount (emitted mainList (fst (buildFractal v1 v2 v3 d (mainList, dualList)))) = 3 ^ d"
  using buildFractal_main_prefix [of "(mainList, dualList)" v1 v2 v3 d]
        buildFractal_main_length [of v1 v2 v3 d "(mainList, dualList)"]
  by (simp add: emitted_def triangleCount_def prefix_take_eq)

text \<open>
  C9. For every depth and every seed triangle, \<^verbatim>\<open>buildKoch\<close> pushes exactly
  \<open>(5 * 3 ^ d - 3) / 2\<close> triangles (the division is exact); the number pushed is 1 at
  depth 0 and, at depth \<open>d + 1\<close>, three times the number pushed at depth \<open>d\<close> plus the
  three spike faces.
\<close>

theorem buildKoch_emission_count:
  "triangleCount (emitted vs (buildKoch v1 v2 v3 d vs)) = (5 * 3 ^ d - 3) div 2
   \<and> 2 * triangleCount (emitted vs (buildKoch v1 v2 v3 d vs)) + 3 = 5 * 3 ^ d
   \<and> triangleCount (emitted vs (buildKoch v1 v2 v3 0 vs)) = 1
   \<and> triangleCount (emitted vs (buildKoch v1 v2 v3 (Suc d) vs))
       = 3 * triangleCount (emitted ws (buildKoch w1 w2 w3 d ws)) + 3"
  using kochEmitted_closed [of d] kochEmitted_div [of d]
  by (simp add: emitted_def triangleCount_def buildKoch_length del: buildKoch.simps)

text \<open>
  C1 (as amended). For every depth and every seed triangle, \<^verbatim>\<open>buildKoch\<close> keeps the
  entries already in its output list and pushes \<open>3 * ((5 * 3 ^ d - 3) div 2)\<close> vertices,
  that is \<open>(5 * 3 ^ d - 3) / 2\<close> triangles; this number is \<open>4 ^ d\<close> at depth 0 only.
\<close>

theorem buildKoch_emits:
  "take (length vertexList) (buildKoch v1 v2 v3 d vertexList) = vertexList
   \<and> length (buildKoch v1 v2 v3 d vertexList) = length vertexList + 3 * ((5 * 3 ^ d - 3) div 2)
   \<and> (triangleCount (emitted vertexList (buildKoch v1 v2 v3 d vertexList)) = 4 ^ d
        \<longleftrightarrow> d = 0)"
  using buildKoch_prefix [of vertexList v1 v2 v3 d] kochEmitted_pow4 [of d]
  by (simp add: emitted_def triangleCount_def buildKoch_length prefix_take_eq
        kochEmitted_div [symmetric] del: buildKoch.simps)

text \<open>
  C1 as stated fails at depth 1: the call pushes the three corner triangles and three
  spike faces, six triangles and not four.
\<close>

theorem buildKoch_pow4_counterexample:
  "triangleCount (emitted [] (buildKoch (Vector3 1 0 0) (Vector3 0 1 0) (Vector3 0 0 1) 1 []))
     \<noteq> 4 ^ 1"
  by (simp add: emitted_def triangleCount_def buildKoch_length del: buildKoch.simps)

subsection \<open>The escape-time algorithms\<close>




text \<open>
  \<open>escapeTime\<close> is the index of the first point of the orbit with modulus above 2, or
  the cap when the first \<open>cap\<close> points stay within the disc.
\<close>

lemma escapeTime_first_escape:
  "escapeTime c z cap \<le> cap
   \<and> (\<forall>k < escapeTime c z cap. cmod (((\<lambda>w. w * w + c) ^^ k) z) \<le> 2)
   \<and> (escapeTime c z cap < cap \<longrightarrow>
        cmod (((\<lambda>w. w * w + c) ^^ escapeTime c z cap) z) > 2)"
proof (induction cap arbitrary: z)
  case 0
  show ?case by simp
next
  case (Suc cap)
  show ?case
  proof (cases "cmod z > 2")
    case True
    then show ?thesis by simp
  next
    case False
    have "cmod (((\<lambda>w. w * w + c) ^^ k) z) \<le> 2"
      if "k < Suc (escapeTime c (z * z + c) cap)" for k
    proof (cases k)
      case 0
      with False show ?thesis by simp
    next
      case (Suc j)
      with that have "j < escapeTime c (z * z + c) cap" by simp
      with Suc.IH [of "z * z + c"] have "cmod (((\<lambda>w. w * w + c) ^^ j) (z * z + c)) \<le> 2"
        by blast
      with Suc show ?thesis by (simp add: funpow_Suc_right del: funpow.simps)
    qed
    with False Suc.IH [of "z * z + c"] show ?thesis
      by (simp add: funpow_Suc_right del: funpow.simps)
  qed
qed




















lemma length_subdivideFace1: "length (subdivideFace a b c (Suc 0)) = 12"
  by (simp add: subdivideFace_def Let_def upt_rec)

lemma length_Icosahedron1: "length (IcosahedronGeometry r (Suc 0)) = 240"
  by (simp add: IcosahedronGeometry_def icosahedronIndices_def length_concat length_subdivideFace1)

lemma generateStructure_plain:
  assumes "ft \<noteq> Hybrid"
  shows "generateStructure d ft w =
           (plainArtifacts (nextObjectId w) (length (geometries (heap w)))
              (length (materials (heap w))),
            grownWorld w
              [freshGeometry (fst (plainVertexLists d ft)),
               freshGeometry (snd (plainVertexLists d ft)),
               freshGeometry (lineVerticesOf (fst (plainVertexLists d ft)))]
              [mainMaterial, lineMaterial, dualMaterial, mainMaterial, lineMaterial,
               dualMaterial])"
  using assms
  by (simp add: generateStructure_def Let_def split_def newBufferGeometry_def newMaterial_def
        newObject_def plainVertexLists_def plainArtifacts_def grownWorld_def freshGeometry_def
        surfaceMesh_def dualMesh_def wireframe_def layerOf_def)

lemma generateStructure_hybrid:
  "generateStructure d Hybrid w =
     (hybridArtifacts (nextObjectId w) (length (geometries (heap w)))
        (length (materials (heap w))),
      grownWorld w
        [freshGeometry (fst (hybridVertexLists d)),
         freshGeometry (lineVerticesOf (fst (hybridVertexLists d))),
         freshGeometry (fst (fst (snd (hybridVertexLists d)))),
         freshGeometry (lineVerticesOf (fst (fst (snd (hybridVertexLists d))))),
         freshGeometry (snd (snd (hybridVertexLists d))),
         freshGeometry (lineVerticesOf (snd (snd (hybridVertexLists d))))]
        [mainMaterial, lineMaterial, mainMaterial, lineMaterial, juliaMaterial,
         juliaLineMaterial])"
  by (simp add: generateStructure_def Let_def split_def newBufferGeometry_def newMaterial_def
        newObject_def hybridVertexLists_def hybridArtifacts_def grownWorld_def freshGeometry_def
        surfaceMesh_def dualMesh_def wireframe_def layerOf_def)

subsection \<open>Generated structures\<close>

lemma forEachSeed_buildFractal_length:
  "length (fst (forEachSeed (\<lambda>v1 v2 v3. buildFractal v1 v2 v3 d) ps acc))
     = length (fst acc) + 3 * 3 ^ d * (length ps div 3)"
  by (induction ps arbitrary: acc rule: lineVerticesOf.induct)
     (simp_all add: buildFractal_main_length algebra_simps)

lemma plainVertexLists_Noegenesis:
  "plainVertexLists d Noegenesis
     = forEachSeed (\<lambda>v1 v2 v3. buildFractal v1 v2 v3 d) (IcosahedronGeometry 7.5 1) ([], [])"
  by (simp add: plainVertexLists_def split_def)

lemma length_main_Noegenesis: "length (fst (plainVertexLists d Noegenesis)) = 3 * (80 * 3 ^ d)"
  by (simp add: plainVertexLists_Noegenesis forEachSeed_buildFractal_length length_Icosahedron1)

lemma forEachSeed_hybrid_sierpinski:
  "fst (snd (forEachSeed (\<lambda>v1 v2 v3 (k, s, j).
         (buildKoch v1 v2 v3 d k, buildFractal v1 v2 v3 d s, buildJulia v1 v2 v3 d j))
       ps (k0, s0, j0)))
     = forEachSeed (\<lambda>v1 v2 v3. buildFractal v1 v2 v3 d) ps s0"
  by (induction ps arbitrary: k0 s0 j0 rule: lineVerticesOf.induct) simp_all

lemma hybrid_sierpinski_lists: "fst (snd (hybridVertexLists d)) = plainVertexLists d Noegenesis"
  by (simp add: hybridVertexLists_def plainVertexLists_Noegenesis forEachSeed_hybrid_sierpinski)

lemma principal_triangles_Noegenesis:
  "surfaceTriangles (heap (snd (generateStructure d Noegenesis w)))
     (geoidePrincipalGroup (fst (generateStructure d Noegenesis w))) = 80 * 3 ^ d"
  by (simp add: generateStructure_plain plainArtifacts_def grownWorld_def surfaceTriangles_def
        layerOf_def surfaceMesh_def wireframe_def freshGeometry_def triangleCount_def
        length_main_Noegenesis)

text \<open>
  C2 (as amended). The base polyhedron \<^verbatim>\<open>IcosahedronGeometry(7.5, 1)\<close> has 80
  triangles (detail 1 splits each of the 20 faces in four), so at depth 3 and type
  noegenesis the surface mesh of the principal layer holds \<open>80 * 3\<^sup>3 = 2160\<close> triangles,
  in any world and in the initial state.
\<close>

theorem principal_layer_depth3:
  "triangleCount (IcosahedronGeometry 7.5 1) = 80
   \<and> surfaceTriangles (heap (snd (generateStructure 3 Noegenesis w)))
        (geoidePrincipalGroup (fst (generateStructure 3 Noegenesis w))) = 80 * 3 ^ 3
   \<and> surfaceTriangles
        (heap (world (initialState (props\<lparr>depth := 3, fractalType := Noegenesis\<rparr>) cam)))
        (geoidePrincipalGroup
          (activeArtifacts (initialState (props\<lparr>depth := 3, fractalType := Noegenesis\<rparr>) cam)))
       = 2160"
  using principal_triangles_Noegenesis [of 3 w] principal_triangles_Noegenesis [of 3 emptyWorld]
  by (simp add: initialState_def split_def Let_def triangleCount_def length_Icosahedron1)

text \<open>
  C2 as stated fails: the principal layer generated at depth 3 for type noegenesis does
  not hold \<open>20 * 3\<^sup>3 = 540\<close> triangles.
\<close>

theorem principal_layer_540_counterexample:
  "surfaceTriangles (heap (snd (generateStructure 3 Noegenesis emptyWorld)))
     (geoidePrincipalGroup (fst (generateStructure 3 Noegenesis emptyWorld))) \<noteq> 20 * 3 ^ 3"
  using principal_triangles_Noegenesis [of 3 emptyWorld] by simp

text \<open>
  C10. For type hybrid the seed loop fills the negative-space list
  (\<^verbatim>\<open>sierpinskiDualVertices\<close>, the same list the noegenesis branch turns into its dual
  geometry), but the structure is assembled from the other three lists only: the six
  geometries created are the Koch, Sierpinski main and Julia lists and their wireframes,
  each layer holds one surface mesh and one wireframe over them, and no object carries the
  dual material.
\<close>

theorem hybrid_layers_without_dual:
  "let a = fst (generateStructure d Hybrid w);
       h = heap (snd (generateStructure d Hybrid w));
       kochVertices = fst (hybridVertexLists d);
       sierpinskiMainVertices = fst (fst (snd (hybridVertexLists d)));
       sierpinskiDualVertices = snd (fst (snd (hybridVertexLists d)));
       juliaVertices = snd (snd (hybridVertexLists d));
       positionsOf = map (\<lambda>obj. position (geometries h ! geometry obj));
       kindsOf = map (\<lambda>obj. kind (materials h ! material obj))
   in (sierpinskiMainVertices, sierpinskiDualVertices) = plainVertexLists d Noegenesis
      \<and> geometries h = geometries (heap w)
           @ map freshGeometry
               [kochVertices, lineVerticesOf kochVertices,
                sierpinskiMainVertices, lineVerticesOf sierpinskiMainVertices,
                juliaVertices, lineVerticesOf juliaVertices]
      \<and> positionsOf (children (geoidePrincipalGroup a))
          = [sierpinskiMainVertices, lineVerticesOf sierpinskiMainVertices]
      \<and> positionsOf (children (geoideInteriorGroup a))
          = [juliaVertices, lineVerticesOf juliaVertices]
      \<and> positionsOf (children (geoideExteriorGroup a))
          = [kochVertices, lineVerticesOf kochVertices]
      \<and> kindsOf (children (geoidePrincipalGroup a)) = [MeshStandardMaterial, LineBasicMaterial]
      \<and> kindsOf (children (geoideInteriorGroup a)) = [MeshStandardMaterial, LineBasicMaterial]
      \<and> kindsOf (children (geoideExteriorGroup a)) = [MeshStandardMaterial, LineBasicMaterial]"
  by (simp add: Let_def generateStructure_hybrid hybridArtifacts_def grownWorld_def layerOf_def
        surfaceMesh_def wireframe_def freshGeometry_def nth_append
        hybrid_sierpinski_lists [symmetric]
        mainMaterial_def lineMaterial_def juliaMaterial_def juliaLineMaterial_def)

subsection \<open>Updates through lists of references\<close>

lemma length_fold_update [simp]:
  "length (fold (\<lambda>i xs. xs[i := f (xs ! i)]) rs xs) = length xs"
  by (induction rs arbitrary: xs) simp_all

lemma nth_fold_update_other:
  "r \<notin> set rs \<Longrightarrow> fold (\<lambda>i xs. xs[i := f (xs ! i)]) rs xs ! r = xs ! r"
  by (induction rs arbitrary: xs) auto

lemma nth_fold_update_setter:
  assumes "\<And>x. f (f x) = f x" and "r < length xs" and "r \<in> set rs"
  shows "fold (\<lambda>i xs. xs[i := f (xs ! i)]) rs xs ! r = f (xs ! r)"
  using assms(2,3)
proof (induction rs arbitrary: xs)
  case Nil
  then show ?case by simp
next
  case (Cons i rs)
  show ?case
  proof (cases "r \<in> set rs")
    case True
    then have "fold (\<lambda>i xs. xs[i := f (xs ! i)]) rs (xs[i := f (xs ! i)]) ! r
                 = f (xs[i := f (xs ! i)] ! r)"
      using Cons.IH [of "xs[i := f (xs ! i)]"] Cons.prems by simp
    also have "\<dots> = f (xs ! r)"
      using Cons.prems assms(1) by (cases "i = r") simp_all
    finally show ?thesis by simp
  next
    case False
    then have "r = i" using Cons.prems by simp
    with False Cons.prems show ?thesis by (simp add: nth_fold_update_other)
  qed
qed

lemma nth_fold_update_invariant:
  assumes "\<And>x. P (f x) = P x" and "r < length xs"
  shows "P (fold (\<lambda>i xs. xs[i := f (xs ! i)]) rs xs ! r) = P (xs ! r)"
  using assms(2)
proof (induction rs arbitrary: xs)
  case Nil
  then show ?case by simp
next
  case (Cons i rs)
  have "P (fold (\<lambda>i xs. xs[i := f (xs ! i)]) rs (xs[i := f (xs ! i)]) ! r)
          = P (xs[i := f (xs ! i)] ! r)"
    using Cons.IH [of "xs[i := f (xs ! i)]"] Cons.prems by simp
  also have "\<dots> = P (xs ! r)"
    using Cons.prems assms(1) by (cases "i = r") simp_all
  finally show ?case by simp
qed

subsection \<open>Heap projections of the traversals\<close>

lemma fold_materials_update:
  "materials (fold (\<lambda>obj h. h\<lparr>materials := (materials h)[material obj := f (materials h ! material obj)]\<rparr>) objs h)
     = fold (\<lambda>i xs. xs[i := f (xs ! i)]) (map material objs) (materials h)"
  by (induction objs arbitrary: h) simp_all

lemma fold_materials_update_geometries:
  "geometries (fold (\<lambda>obj h. h\<lparr>materials := (materials h)[material obj := f (materials h ! material obj)]\<rparr>) objs h)
     = geometries h"
  by (induction objs arbitrary: h) simp_all

lemma materials_traverseMaterials:
  "materials (traverseMaterials g f h)
     = fold (\<lambda>i xs. xs[i := f (xs ! i)]) (map material (traverse g)) (materials h)"
  by (simp add: traverseMaterials_def fold_materials_update)

lemma geometries_traverseMaterials [simp]:
  "geometries (traverseMaterials g f h) = geometries h"
  by (simp add: traverseMaterials_def fold_materials_update_geometries)

lemma materials_fold_disposeObject:
  "materials (fold disposeObject objs h)
     = fold (\<lambda>i xs. xs[i := (xs ! i)\<lparr>materialDisposed := True\<rparr>]) (map material objs) (materials h)"
  by (induction objs arbitrary: h) (simp_all add: disposeObject_def Let_def)

lemma geometries_fold_disposeObject:
  "geometries (fold disposeObject objs h)
     = fold (\<lambda>i xs. xs[i := (xs ! i)\<lparr>geometryDisposed := True\<rparr>]) (map geometry objs) (geometries h)"
  by (induction objs arbitrary: h) (simp_all add: disposeObject_def Let_def)

lemma materials_disposeGroup:
  "materials (disposeGroup g h)
     = fold (\<lambda>i xs. xs[i := (xs ! i)\<lparr>materialDisposed := True\<rparr>]) (map material (traverse g)) (materials h)"
  by (simp add: disposeGroup_def materials_fold_disposeObject)

lemma geometries_disposeGroup:
  "geometries (disposeGroup g h)
     = fold (\<lambda>i xs. xs[i := (xs ! i)\<lparr>geometryDisposed := True\<rparr>]) (map geometry (traverse g)) (geometries h)"
  by (simp add: disposeGroup_def geometries_fold_disposeObject)

lemma length_materials_traverseMaterials [simp]:
  "length (materials (traverseMaterials g f h)) = length (materials h)"
  by (simp add: materials_traverseMaterials)

lemma length_materials_disposeGroup [simp]:
  "length (materials (disposeGroup g h)) = length (materials h)"
  by (simp add: materials_disposeGroup)

lemma length_geometries_disposeGroup [simp]:
  "length (geometries (disposeGroup g h)) = length (geometries h)"
  by (simp add: geometries_disposeGroup)

subsection \<open>Effect of the traversals on single heap cells\<close>

lemma nth_materials_traverseMaterials_other:
  "r \<notin> materialRefs g \<Longrightarrow> materials (traverseMaterials g f h) ! r = materials h ! r"
  by (simp add: materials_traverseMaterials materialRefs_def nth_fold_update_other)

lemma nth_materials_traverseMaterials_setter:
  assumes "\<And>x. f (f x) = f x" and "r < length (materials h)" and "r \<in> materialRefs g"
  shows "materials (traverseMaterials g f h) ! r = f (materials h ! r)"
  using assms(2,3) nth_fold_update_setter [of f r "materials h" "map material (traverse g)"] assms(1)
  by (simp add: materials_traverseMaterials materialRefs_def)

lemma materialDisposed_traverseMaterials:
  assumes "\<And>x. materialDisposed (f x) = materialDisposed x" and "r < length (materials h)"
  shows "materialDisposed (materials (traverseMaterials g f h) ! r)
           = materialDisposed (materials h ! r)"
  using nth_fold_update_invariant [of materialDisposed f r "materials h" "map material (traverse g)"]
        assms
  by (simp add: materials_traverseMaterials)

lemma live_traverseMaterials:
  assumes "\<And>x. materialDisposed (f x) = materialDisposed x"
  shows "live (traverseMaterials g f h) g' = live h g'"
  unfolding live_def list_all_iff
  using materialDisposed_traverseMaterials [of f _ h g, OF assms]
  by auto

lemma nth_geometries_disposeGroup_other:
  "r \<notin> geometryRefs g \<Longrightarrow> geometries (disposeGroup g h) ! r = geometries h ! r"
  by (simp add: geometries_disposeGroup geometryRefs_def nth_fold_update_other)

lemma nth_materials_disposeGroup_other:
  "r \<notin> materialRefs g \<Longrightarrow> materials (disposeGroup g h) ! r = materials h ! r"
  by (simp add: materials_disposeGroup materialRefs_def nth_fold_update_other)

lemma nth_geometries_disposeGroup_in:
  assumes "r < length (geometries h)" and "r \<in> geometryRefs g"
  shows "geometries (disposeGroup g h) ! r = (geometries h ! r)\<lparr>geometryDisposed := True\<rparr>"
  using assms
    nth_fold_update_setter [of "\<lambda>x. x\<lparr>geometryDisposed := True\<rparr>" r "geometries h"
      "map geometry (traverse g)"]
  by (simp add: geometries_disposeGroup geometryRefs_def)

lemma nth_materials_disposeGroup_in:
  assumes "r < length (materials h)" and "r \<in> materialRefs g"
  shows "materials (disposeGroup g h) ! r = (materials h ! r)\<lparr>materialDisposed := True\<rparr>"
  using assms
    nth_fold_update_setter [of "\<lambda>x. x\<lparr>materialDisposed := True\<rparr>" r "materials h"
      "map material (traverse g)"]
  by (simp add: materials_disposeGroup materialRefs_def)

lemma opacity_disposeGroup:
  "r < length (materials h) \<Longrightarrow>
     opacity (materials (disposeGroup g h) ! r) = opacity (materials h ! r)"
  using nth_fold_update_invariant [of opacity "\<lambda>x. x\<lparr>materialDisposed := True\<rparr>" r "materials h"
          "map material (traverse g)"]
  by (simp add: materials_disposeGroup)

lemma geometryDisposed_disposeGroup:
  "r < length (geometries h) \<Longrightarrow>
     geometryDisposed (geometries (disposeGroup g h) ! r)
       \<longleftrightarrow> geometryDisposed (geometries h ! r) \<or> r \<in> geometryRefs g"
  by (cases "r \<in> geometryRefs g")
     (simp_all add: nth_geometries_disposeGroup_in nth_geometries_disposeGroup_other)

lemma materialDisposed_disposeGroup:
  "r < length (materials h) \<Longrightarrow>
     materialDisposed (materials (disposeGroup g h) ! r)
       \<longleftrightarrow> materialDisposed (materials h ! r) \<or> r \<in> materialRefs g"
  by (cases "r \<in> materialRefs g")
     (simp_all add: nth_materials_disposeGroup_in nth_materials_disposeGroup_other)

lemma live_refs:
  "live h g \<Longrightarrow> geometryRefs g \<subseteq> {..< length (geometries h)}
                \<and> materialRefs g \<subseteq> {..< length (materials h)}"
  by (auto simp: live_def list_all_iff geometryRefs_def materialRefs_def)

lemma destroyed_disposeGroup:
  assumes "live h g"
  shows "destroyed (disposeGroup g h) g"
  using live_refs [OF assms]
  by (auto simp: destroyed_def list_all_iff geometryDisposed_disposeGroup
        materialDisposed_disposeGroup geometryRefs_def materialRefs_def)

lemma live_disposeGroup_disjoint:
  assumes "geometryRefs g \<inter> geometryRefs g' = {}" and "materialRefs g \<inter> materialRefs g' = {}"
  shows "live (disposeGroup g h) g' = live h g'"
proof -
  have "geometries (disposeGroup g h) ! geometry obj = geometries h ! geometry obj"
    and "materials (disposeGroup g h) ! material obj = materials h ! material obj"
    if "obj \<in> set (traverse g')" for obj
    using that assms
    by (auto simp: geometryRefs_def materialRefs_def
          intro!: nth_geometries_disposeGroup_other nth_materials_disposeGroup_other)
  then show ?thesis
    by (auto simp: live_def list_all_iff)
qed

lemma set_disposedGeometries_disposeGroup:
  assumes "geometryRefs g \<subseteq> {..< length (geometries h)}"
  shows "set (disposedGeometries (disposeGroup g h)) = set (disposedGeometries h) \<union> geometryRefs g"
  using assms by (auto simp: disposedGeometries_def geometryDisposed_disposeGroup)

lemma set_disposedMaterials_disposeGroup:
  assumes "materialRefs g \<subseteq> {..< length (materials h)}"
  shows "set (disposedMaterials (disposeGroup g h)) = set (disposedMaterials h) \<union> materialRefs g"
  using assms by (auto simp: disposedMaterials_def materialDisposed_disposeGroup)

lemma disposedGeometries_traverseMaterials [simp]:
  "disposedGeometries (traverseMaterials g f h) = disposedGeometries h"
  by (simp add: disposedGeometries_def)

lemma disposedMaterials_traverseMaterials:
  assumes "\<And>x. materialDisposed (f x) = materialDisposed x"
  shows "disposedMaterials (traverseMaterials g f h) = disposedMaterials h"
  unfolding disposedMaterials_def
  using materialDisposed_traverseMaterials [of f _ h g, OF assms]
  by (auto intro: filter_cong)

subsection \<open>Common opacity and transparency of a structure\<close>

lemma remdups_const: "xs \<noteq> [] \<Longrightarrow> \<forall>x\<in>set xs. x = c \<Longrightarrow> remdups xs = [c]"
proof (induction xs)
  case Nil
  then show ?case by simp
next
  case (Cons a xs)
  show ?case
  proof (cases "xs = []")
    case True
    with Cons.prems show ?thesis by simp
  next
    case False
    with Cons have "remdups xs = [c]" by simp
    moreover have "a = c" using Cons.prems by simp
    moreover have "c \<in> set xs"
      using False Cons.prems by (cases xs) simp_all
    ultimately show ?thesis by simp
  qed
qed

lemma structureOpacity_const:
  assumes "traverse g \<noteq> []"
    and "\<And>obj. obj \<in> set (traverse g) \<Longrightarrow> opacity (materials h ! material obj) = c"
  shows "structureOpacity h g = Some c"
proof -
  have "remdups (map (\<lambda>obj. opacity (materials h ! material obj)) (traverse g)) = [c]"
    using assms by (intro remdups_const) auto
  then show ?thesis by (simp add: structureOpacity_def)
qed

lemma structureTransparent_const:
  assumes "traverse g \<noteq> []"
    and "\<And>obj. obj \<in> set (traverse g) \<Longrightarrow> transparent (materials h ! material obj) = c"
  shows "structureTransparent h g = Some c"
proof -
  have "remdups (map (\<lambda>obj. transparent (materials h ! material obj)) (traverse g)) = [c]"
    using assms by (intro remdups_const) auto
  then show ?thesis by (simp add: structureTransparent_def)
qed

lemma structureOpacity_cong:
  assumes "\<And>obj. obj \<in> set (traverse g) \<Longrightarrow>
             opacity (materials h' ! material obj) = opacity (materials h ! material obj)"
  shows "structureOpacity h' g = structureOpacity h g"
proof -
  have eq: "map (\<lambda>obj. opacity (materials h' ! material obj)) (traverse g)
          = map (\<lambda>obj. opacity (materials h ! material obj)) (traverse g)"
    using assms by simp
  show ?thesis unfolding structureOpacity_def eq ..
qed

lemma structureOpacity_setter:
  assumes "live h g" and "\<And>x. f (f x) = f x" and "\<And>x. opacity (f x) = c"
  shows "structureOpacity (traverseMaterials g f h) g = Some c"
proof (rule structureOpacity_const)
  show "traverse g \<noteq> []" using assms(1) by (simp add: live_def)
next
  fix obj assume obj: "obj \<in> set (traverse g)"
  then have "material obj < length (materials h)" "material obj \<in> materialRefs g"
    using assms(1) by (auto simp: live_def list_all_iff materialRefs_def)
  then show "opacity (materials (traverseMaterials g f h) ! material obj) = c"
    using assms(2,3) by (simp add: nth_materials_traverseMaterials_setter)
qed

lemma structureTransparent_setter:
  assumes "live h g" and "\<And>x. f (f x) = f x" and "\<And>x. transparent (f x) = c"
  shows "structureTransparent (traverseMaterials g f h) g = Some c"
proof (rule structureTransparent_const)
  show "traverse g \<noteq> []" using assms(1) by (simp add: live_def)
next
  fix obj assume obj: "obj \<in> set (traverse g)"
  then have "material obj < length (materials h)" "material obj \<in> materialRefs g"
    using assms(1) by (auto simp: live_def list_all_iff materialRefs_def)
  then show "transparent (materials (traverseMaterials g f h) ! material obj) = c"
    using assms(2,3) by (simp add: nth_materials_traverseMaterials_setter)
qed

lemma structureOpacity_traverseMaterials_disjoint:
  assumes "materialRefs g \<inter> materialRefs g' = {}"
  shows "structureOpacity (traverseMaterials g f h) g' = structureOpacity h g'"
proof (rule structureOpacity_cong)
  fix obj assume "obj \<in> set (traverse g')"
  then have "material obj \<notin> materialRefs g"
    using assms by (auto simp: materialRefs_def)
  then show "opacity (materials (traverseMaterials g f h) ! material obj)
               = opacity (materials h ! material obj)"
    by (simp add: nth_materials_traverseMaterials_other)
qed

subsection \<open>What \<open>generateStructure\<close> allocates\<close>

lemma traverse_plainArtifacts:
  "traverse (structureGroup (plainArtifacts sid ng nm))
     = [surfaceMesh ng nm Principal, wireframe (ng + 2) (nm + 1) Principal,
        dualMesh (ng + 1) (nm + 2) Interior,
        surfaceMesh ng (nm + 3) Exterior, wireframe (ng + 2) (nm + 4) Exterior,
        dualMesh (ng + 1) (nm + 5) Exterior]"
  by (simp add: traverse_def structureGroup_def plainArtifacts_def layerOf_def)

lemma traverse_hybridArtifacts:
  "traverse (structureGroup (hybridArtifacts sid ng nm))
     = [surfaceMesh (ng + 2) (nm + 2) Principal, wireframe (ng + 3) (nm + 3) Principal,
        surfaceMesh (ng + 4) (nm + 4) Interior, wireframe (ng + 5) (nm + 5) Interior,
        surfaceMesh ng nm Exterior, wireframe (ng + 1) (nm + 1) Exterior]"
  by (simp add: traverse_def structureGroup_def hybridArtifacts_def layerOf_def)

lemma object_fields [simp]:
  "geometry (surfaceMesh g m l) = g" "material (surfaceMesh g m l) = m"
  "geometry (wireframe g m l) = g" "material (wireframe g m l) = m"
  "geometry (dualMesh g m l) = g" "material (dualMesh g m l) = m"
  "parent (surfaceMesh g m l) = l" "parent (wireframe g m l) = l" "parent (dualMesh g m l) = l"
  by (simp_all add: surfaceMesh_def wireframe_def dualMesh_def)

lemma generateStructure_fresh:
  obtains gs ms where
    "heap (snd (generateStructure d ft w))
       = \<lparr>geometries = geometries (heap w) @ gs, materials = materials (heap w) @ ms\<rparr>"
    "list_all (\<lambda>g. \<not> geometryDisposed g \<and> colorAttribute g = None) gs"
    "list_all (\<lambda>m. \<not> materialDisposed m \<and> opacity m = 1 \<and> \<not> transparent m) ms"
    "geometryRefs (structureGroup (fst (generateStructure d ft w)))
       \<subseteq> {length (geometries (heap w)) ..< length (geometries (heap w)) + length gs}"
    "materialRefs (structureGroup (fst (generateStructure d ft w)))
       \<subseteq> {length (materials (heap w)) ..< length (materials (heap w)) + length ms}"
    "traverse (structureGroup (fst (generateStructure d ft w))) \<noteq> []"
    "set (mainFractalMeshes (fst (generateStructure d ft w)))
       \<subseteq> set (traverse (structureGroup (fst (generateStructure d ft w))))"
proof (cases "ft = Hybrid")
  case True
  show ?thesis
    by (rule that [of "[freshGeometry (fst (hybridVertexLists d)),
         freshGeometry (lineVerticesOf (fst (hybridVertexLists d))),
         freshGeometry (fst (fst (snd (hybridVertexLists d)))),
         freshGeometry (lineVerticesOf (fst (fst (snd (hybridVertexLists d))))),
         freshGeometry (snd (snd (hybridVertexLists d))),
         freshGeometry (lineVerticesOf (snd (snd (hybridVertexLists d))))]"
        "[mainMaterial, lineMaterial, mainMaterial, lineMaterial, juliaMaterial,
         juliaLineMaterial]"])
       (simp_all add: True generateStructure_hybrid grownWorld_def freshGeometry_def
          mainMaterial_def lineMaterial_def juliaMaterial_def juliaLineMaterial_def
          geometryRefs_def materialRefs_def traverse_hybridArtifacts,
        simp_all add: hybridArtifacts_def)
next
  case False
  show ?thesis
    by (rule that [of "[freshGeometry (fst (plainVertexLists d ft)),
               freshGeometry (snd (plainVertexLists d ft)),
               freshGeometry (lineVerticesOf (fst (plainVertexLists d ft)))]"
        "[mainMaterial, lineMaterial, dualMaterial, mainMaterial, lineMaterial,
               dualMaterial]"])
       (simp_all add: False generateStructure_plain grownWorld_def freshGeometry_def
          mainMaterial_def lineMaterial_def dualMaterial_def
          geometryRefs_def materialRefs_def traverse_plainArtifacts,
        simp_all add: plainArtifacts_def)
qed

lemma generateStructure_world:
  "sceneChildren (snd (generateStructure d ft w)) = sceneChildren w @ [nextObjectId w]"
  "nextObjectId (snd (generateStructure d ft w)) = Suc (nextObjectId w)"
  "objectId (structureGroup (fst (generateStructure d ft w))) = nextObjectId w"
  by (cases "ft = Hybrid";
      simp add: generateStructure_hybrid generateStructure_plain grownWorld_def
        structureGroup_def plainArtifacts_def hybridArtifacts_def)+

lemma generateStructure_live_new:
  "live (heap (snd (generateStructure d ft w))) (structureGroup (fst (generateStructure d ft w)))"
proof -
  obtain gs ms where f:
    "heap (snd (generateStructure d ft w))
       = \<lparr>geometries = geometries (heap w) @ gs, materials = materials (heap w) @ ms\<rparr>"
    "list_all (\<lambda>g. \<not> geometryDisposed g \<and> colorAttribute g = None) gs"
    "list_all (\<lambda>m. \<not> materialDisposed m \<and> opacity m = 1 \<and> \<not> transparent m) ms"
    "geometryRefs (structureGroup (fst (generateStructure d ft w)))
       \<subseteq> {length (geometries (heap w)) ..< length (geometries (heap w)) + length gs}"
    "materialRefs (structureGroup (fst (generateStructure d ft w)))
       \<subseteq> {length (materials (heap w)) ..< length (materials (heap w)) + length ms}"
    "traverse (structureGroup (fst (generateStructure d ft w))) \<noteq> []"
    by (rule generateStructure_fresh)
  have "geometry obj < length (geometries (heap w) @ gs)
        \<and> material obj < length (materials (heap w) @ ms)
        \<and> \<not> geometryDisposed ((geometries (heap w) @ gs) ! geometry obj)
        \<and> \<not> materialDisposed ((materials (heap w) @ ms) ! material obj)"
    if "obj \<in> set (traverse (structureGroup (fst (generateStructure d ft w))))" for obj
  proof -
    from that f(4,5) have g: "length (geometries (heap w)) \<le> geometry obj"
      "geometry obj < length (geometries (heap w)) + length gs"
      and m: "length (materials (heap w)) \<le> material obj"
      "material obj < length (materials (heap w)) + length ms"
      by (auto simp: geometryRefs_def materialRefs_def)
    from g f(2) have "\<not> geometryDisposed (gs ! (geometry obj - length (geometries (heap w))))"
      by (simp add: list_all_length)
    moreover from m f(3) have "\<not> materialDisposed (ms ! (material obj - length (materials (heap w))))"
      by (simp add: list_all_length)
    ultimately show ?thesis using g m by (simp add: nth_append)
  qed
  then show ?thesis
    using f(6) by (simp add: live_def list_all_iff f(1))
qed

lemma generateStructure_live_old:
  assumes "live (heap w) g"
  shows "live (heap (snd (generateStructure d ft w))) g"
    and "geometryRefs g \<inter> geometryRefs (structureGroup (fst (generateStructure d ft w))) = {}"
    and "materialRefs g \<inter> materialRefs (structureGroup (fst (generateStructure d ft w))) = {}"
    and "structureOpacity (heap (snd (generateStructure d ft w))) g = structureOpacity (heap w) g"
proof -
  obtain gs ms where f:
    "heap (snd (generateStructure d ft w))
       = \<lparr>geometries = geometries (heap w) @ gs, materials = materials (heap w) @ ms\<rparr>"
    "geometryRefs (structureGroup (fst (generateStructure d ft w)))
       \<subseteq> {length (geometries (heap w)) ..< length (geometries (heap w)) + length gs}"
    "materialRefs (structureGroup (fst (generateStructure d ft w)))
       \<subseteq> {length (materials (heap w)) ..< length (materials (heap w)) + length ms}"
    by (rule generateStructure_fresh)
  have old: "geometry obj < length (geometries (heap w))" "material obj < length (materials (heap w))"
    if "obj \<in> set (traverse g)" for obj
    using assms that by (auto simp: live_def list_all_iff)
  show "live (heap (snd (generateStructure d ft w))) g"
    using assms by (auto simp: live_def list_all_iff f(1) nth_append)
  show "geometryRefs g \<inter> geometryRefs (structureGroup (fst (generateStructure d ft w))) = {}"
    using f(2) old(1) by (fastforce simp: geometryRefs_def)
  show "materialRefs g \<inter> materialRefs (structureGroup (fst (generateStructure d ft w))) = {}"
    using f(3) old(2) by (fastforce simp: materialRefs_def)
  show "structureOpacity (heap (snd (generateStructure d ft w))) g = structureOpacity (heap w) g"
    by (rule structureOpacity_cong) (simp add: f(1) nth_append old)
qed

lemma filter_append_fresh:
  assumes "list_all (\<lambda>g. \<not> P g) gs"
  shows "set (filter (\<lambda>r. P ((xs @ gs) ! r)) [0 ..< length xs + length gs])
           = set (filter (\<lambda>r. P (xs ! r)) [0 ..< length xs])"
proof -
  have "P ((xs @ gs) ! r) \<longleftrightarrow> r < length xs \<and> P (xs ! r)"
    if "r < length xs + length gs" for r
  proof (cases "r < length xs")
    case True
    then show ?thesis by (simp add: nth_append)
  next
    case False
    with that have "r - length xs < length gs" by simp
    with assms have "\<not> P (gs ! (r - length xs))" by (simp add: list_all_length)
    with False show ?thesis by (simp add: nth_append)
  qed
  then show ?thesis by auto
qed

lemma generateStructure_disposed:
  "set (disposedGeometries (heap (snd (generateStructure d ft w)))) = set (disposedGeometries (heap w))"
  "set (disposedMaterials (heap (snd (generateStructure d ft w)))) = set (disposedMaterials (heap w))"
proof -
  obtain gs ms where f:
    "heap (snd (generateStructure d ft w))
       = \<lparr>geometries = geometries (heap w) @ gs, materials = materials (heap w) @ ms\<rparr>"
    "list_all (\<lambda>g. \<not> geometryDisposed g \<and> colorAttribute g = None) gs"
    "list_all (\<lambda>m. \<not> materialDisposed m \<and> opacity m = 1 \<and> \<not> transparent m) ms"
    by (rule generateStructure_fresh)
  show "set (disposedGeometries (heap (snd (generateStructure d ft w)))) = set (disposedGeometries (heap w))"
    using filter_append_fresh [of geometryDisposed gs "geometries (heap w)"] f(2)
    by (simp add: disposedGeometries_def f(1) list_all_iff)
  show "set (disposedMaterials (heap (snd (generateStructure d ft w)))) = set (disposedMaterials (heap w))"
    using filter_append_fresh [of materialDisposed ms "materials (heap w)"] f(3)
    by (simp add: disposedMaterials_def f(1) list_all_iff)
qed

subsection \<open>The invariant between frames\<close>

lemma sceneInv_NoneI:
  assumes "fadingOutGroupRef s = None" "transitionStartTimeRef s = None"
    "live (heap (world s)) (structureGroup (activeArtifacts s))"
    "objectId (structureGroup (activeArtifacts s)) < nextObjectId (world s)"
    "set (mainFractalMeshes (activeArtifacts s)) \<subseteq> set (traverse (structureGroup (activeArtifacts s)))"
    "sceneChildren (world s) = [objectId (structureGroup (activeArtifacts s))]"
  shows "sceneInv s"
  using assms by (simp add: sceneInv_def Let_def)

lemma sceneInv_SomeI:
  assumes "fadingOutGroupRef s = Some fg" "transitionStartTimeRef s \<noteq> None"
    "live (heap (world s)) (structureGroup (activeArtifacts s))"
    "objectId (structureGroup (activeArtifacts s)) < nextObjectId (world s)"
    "set (mainFractalMeshes (activeArtifacts s)) \<subseteq> set (traverse (structureGroup (activeArtifacts s)))"
    "sceneChildren (world s) = [objectId fg, objectId (structureGroup (activeArtifacts s))]"
    "objectId fg < objectId (structureGroup (activeArtifacts s))"
    "live (heap (world s)) fg"
    "geometryRefs fg \<inter> geometryRefs (structureGroup (activeArtifacts s)) = {}"
    "materialRefs fg \<inter> materialRefs (structureGroup (activeArtifacts s)) = {}"
  shows "sceneInv s"
  using assms by (simp add: sceneInv_def Let_def)

lemma sceneInv_activeD:
  assumes "sceneInv s"
  shows "live (heap (world s)) (structureGroup (activeArtifacts s))"
    and "objectId (structureGroup (activeArtifacts s)) < nextObjectId (world s)"
    and "set (mainFractalMeshes (activeArtifacts s)) \<subseteq> set (traverse (structureGroup (activeArtifacts s)))"
  using assms by (simp_all add: sceneInv_def Let_def)

lemma sceneInv_NoneD:
  assumes "sceneInv s" "fadingOutGroupRef s = None"
  shows "transitionStartTimeRef s = None"
    and "sceneChildren (world s) = [objectId (structureGroup (activeArtifacts s))]"
  using assms by (simp_all add: sceneInv_def Let_def)

lemma sceneInv_SomeD:
  assumes "sceneInv s" "fadingOutGroupRef s = Some fg"
  shows "transitionStartTimeRef s \<noteq> None"
    and "sceneChildren (world s) = [objectId fg, objectId (structureGroup (activeArtifacts s))]"
    and "objectId fg < objectId (structureGroup (activeArtifacts s))"
    and "live (heap (world s)) fg"
    and "geometryRefs fg \<inter> geometryRefs (structureGroup (activeArtifacts s)) = {}"
    and "materialRefs fg \<inter> materialRefs (structureGroup (activeArtifacts s)) = {}"
  using assms by (simp_all add: sceneInv_def Let_def)

lemma sceneInv_scene_le2: "sceneInv s \<Longrightarrow> length (sceneChildren (world s)) \<le> 2"
  by (cases "fadingOutGroupRef s") (simp_all add: sceneInv_def Let_def)

subsection \<open>The transition block\<close>

lemma handleTransitionAnimation_idle:
  "fadingOutGroupRef s = None \<Longrightarrow> handleTransitionAnimation time s = s"
  by (simp add: handleTransitionAnimation_def)

lemma handleTransitionAnimation_running:
  assumes "fadingOutGroupRef s = Some fg" "transitionStartTimeRef s = Some t0"
    "(time - t0) / TRANSITION_DURATION < 1"
  shows "handleTransitionAnimation time s = s\<lparr>world := (world s)\<lparr>heap := fadedHeap time s fg t0\<rparr>\<rparr>"
  using assms by (simp add: handleTransitionAnimation_def Let_def fadedHeap_def)

lemma handleTransitionAnimation_complete:
  assumes "fadingOutGroupRef s = Some fg" "transitionStartTimeRef s = Some t0"
    "1 \<le> (time - t0) / TRANSITION_DURATION"
  shows "handleTransitionAnimation time s =
           s\<lparr>world := (world s)
                \<lparr>heap := traverseMaterials (structureGroup (activeArtifacts s))
                           (\<lambda>mat. mat\<lparr>transparent := False, opacity := 1\<rparr>)
                           (disposeGroup fg (fadedHeap time s fg t0)),
                 sceneChildren := removeAll (objectId fg) (sceneChildren (world s))\<rparr>,
             fadingOutGroupRef := None, transitionStartTimeRef := None\<rparr>"
  using assms
  by (simp add: handleTransitionAnimation_def Let_def fadedHeap_def sceneRemove_def min_def)

lemma live_fadedHeap [simp]: "live (fadedHeap time s fg t0) g = live (heap (world s)) g"
  by (simp add: fadedHeap_def live_traverseMaterials)

lemma disposed_fadedHeap [simp]:
  "disposedGeometries (fadedHeap time s fg t0) = disposedGeometries (heap (world s))"
  "disposedMaterials (fadedHeap time s fg t0) = disposedMaterials (heap (world s))"
  by (simp_all add: fadedHeap_def disposedMaterials_traverseMaterials)

lemma fadedHeap_shape [simp]:
  "length (materials (fadedHeap time s fg t0)) = length (materials (heap (world s)))"
  "geometries (fadedHeap time s fg t0) = geometries (heap (world s))"
  by (simp_all add: fadedHeap_def)


lemma sceneInv_heap_update:
  assumes "sceneInv s" "\<And>g. live h g = live (heap (world s)) g"
  shows "sceneInv (s\<lparr>world := (world s)\<lparr>heap := h\<rparr>\<rparr>)"
  using assms by (simp add: sceneInv_def Let_def split: option.splits)

lemma sceneInv_running:
  assumes "sceneInv s" "fadingOutGroupRef s = Some fg" "transitionStartTimeRef s = Some t0"
    "(time - t0) / TRANSITION_DURATION < 1"
  shows "sceneInv (handleTransitionAnimation time s)"
  using assms by (simp add: handleTransitionAnimation_running sceneInv_heap_update)

lemma complete_facts:
  assumes inv: "sceneInv s" and fg: "fadingOutGroupRef s = Some fg"
    and t0: "transitionStartTimeRef s = Some t0"
    and fin: "1 \<le> (time - t0) / TRANSITION_DURATION"
  defines "s1 \<equiv> handleTransitionAnimation time s"
  shows "sceneInv s1"
    and "fadingOutGroupRef s1 = None" and "transitionStartTimeRef s1 = None"
    and "activeArtifacts s1 = activeArtifacts s"
    and "sceneChildren (world s1) = [objectId (structureGroup (activeArtifacts s))]"
    and "objectId fg \<notin> set (sceneChildren (world s1))"
    and "destroyed (heap (world s1)) fg"
    and "structureOpacity (heap (world s1)) (structureGroup (activeArtifacts s)) = Some 1"
    and "structureTransparent (heap (world s1)) (structureGroup (activeArtifacts s)) = Some False"
    and "set (disposedGeometries (heap (world s1)))
           = set (disposedGeometries (heap (world s))) \<union> geometryRefs fg"
    and "set (disposedMaterials (heap (world s1)))
           = set (disposedMaterials (heap (world s))) \<union> materialRefs fg"
proof -
  note a = sceneInv_activeD [OF inv] and f = sceneInv_SomeD [OF inv fg]
  let ?ag = "structureGroup (activeArtifacts s)"
  let ?reset = "\<lambda>mat. mat\<lparr>transparent := False, opacity := 1\<rparr>"
  let ?h3 = "disposeGroup fg (fadedHeap time s fg t0)"
  have s1: "s1 = s\<lparr>world := (world s)
                \<lparr>heap := traverseMaterials ?ag ?reset ?h3,
                 sceneChildren := removeAll (objectId fg) (sceneChildren (world s))\<rparr>,
             fadingOutGroupRef := None, transitionStartTimeRef := None\<rparr>"
    unfolding s1_def by (rule handleTransitionAnimation_complete [OF fg t0 fin])
  have live3: "live ?h3 ?ag"
    using a(1) f(5,6) by (simp add: live_disposeGroup_disjoint)
  have sc: "removeAll (objectId fg) (sceneChildren (world s)) = [objectId ?ag]"
    using f(2,3) by simp
  show "fadingOutGroupRef s1 = None" "transitionStartTimeRef s1 = None"
    "activeArtifacts s1 = activeArtifacts s"
    by (simp_all add: s1)
  show "sceneChildren (world s1) = [objectId ?ag]" by (simp add: s1 sc)
  show "objectId fg \<notin> set (sceneChildren (world s1))" using f(3) by (simp add: s1 sc)
  show "sceneInv s1"
    using a live3 by (intro sceneInv_NoneI) (simp_all add: s1 sc live_traverseMaterials)
  have "destroyed ?h3 fg"
    using f(4) by (intro destroyed_disposeGroup) simp
  moreover have "materialRefs ?ag \<inter> materialRefs fg = {}" using f(6) by blast
  ultimately show "destroyed (heap (world s1)) fg"
    using f(4)
    by (auto simp: s1 destroyed_def live_def list_all_iff materialDisposed_traverseMaterials)
  show "structureOpacity (heap (world s1)) ?ag = Some 1"
    using live3 by (simp add: s1 structureOpacity_setter)
  show "structureTransparent (heap (world s1)) ?ag = Some False"
    using live3 by (simp add: s1 structureTransparent_setter)
  have refs: "geometryRefs fg \<subseteq> {..< length (geometries (fadedHeap time s fg t0))}"
    "materialRefs fg \<subseteq> {..< length (materials (fadedHeap time s fg t0))}"
    using live_refs [of "fadedHeap time s fg t0" fg] f(4) by simp_all
  show "set (disposedGeometries (heap (world s1)))
           = set (disposedGeometries (heap (world s))) \<union> geometryRefs fg"
    using refs(1) by (simp add: s1 set_disposedGeometries_disposeGroup)
  show "set (disposedMaterials (heap (world s1)))
           = set (disposedMaterials (heap (world s))) \<union> materialRefs fg"
    using refs(2)
    by (simp add: s1 disposedMaterials_traverseMaterials set_disposedMaterials_disposeGroup)
qed

lemma sceneInv_handleTransitionAnimation:
  assumes "sceneInv s"
  shows "sceneInv (handleTransitionAnimation time s)"
proof (cases "fadingOutGroupRef s")
  case None
  with assms show ?thesis by (simp add: handleTransitionAnimation_idle)
next
  case (Some fg)
  then obtain t0 where t0: "transitionStartTimeRef s = Some t0"
    using sceneInv_SomeD(1) [OF assms Some] by auto
  show ?thesis
  proof (cases "1 \<le> (time - t0) / TRANSITION_DURATION")
    case True
    then show ?thesis using complete_facts(1) [OF assms Some t0] by simp
  next
    case False
    then show ?thesis using sceneInv_running [OF assms Some t0] by simp
  qed
qed

subsection \<open>The parameter-change block\<close>

lemma handlePropChanges_unchanged:
  "currentDepth s = depth state \<Longrightarrow> currentFractalType s = fractalType state \<Longrightarrow>
     handlePropChanges state time s = s"
  by (simp add: handlePropChanges_def)

lemma handlePropChanges_changed:
  assumes "currentDepth s \<noteq> depth state \<or> currentFractalType s \<noteq> fractalType state"
  shows "handlePropChanges state time s =
           s\<lparr>world := (snd (generateStructure (depth state) (fractalType state) (markedWorld s)))
                \<lparr>heap := traverseMaterials
                   (structureGroup (fst (generateStructure (depth state) (fractalType state) (markedWorld s))))
                   (\<lambda>mat. mat\<lparr>transparent := True, opacity := 0\<rparr>)
                   (heap (snd (generateStructure (depth state) (fractalType state) (markedWorld s))))\<rparr>,
             fadingOutGroupRef := Some (structureGroup (activeArtifacts s)),
             transitionStartTimeRef := Some time, currentDepth := depth state,
             currentFractalType := fractalType state,
             activeArtifacts := fst (generateStructure (depth state) (fractalType state) (markedWorld s))\<rparr>"
  using assms
  by (auto simp: handlePropChanges_def Let_def split_def markedWorld_def clearedWorld_def
        split: option.splits)

lemma generateStructure_old_cells:
  "r < length (geometries (heap w)) \<Longrightarrow>
     geometries (heap (snd (generateStructure d ft w))) ! r = geometries (heap w) ! r"
  "r < length (materials (heap w)) \<Longrightarrow>
     materials (heap (snd (generateStructure d ft w))) ! r = materials (heap w) ! r"
proof -
  obtain gs ms where f:
    "heap (snd (generateStructure d ft w))
       = \<lparr>geometries = geometries (heap w) @ gs, materials = materials (heap w) @ ms\<rparr>"
    by (rule generateStructure_fresh)
  show "r < length (geometries (heap w)) \<Longrightarrow>
     geometries (heap (snd (generateStructure d ft w))) ! r = geometries (heap w) ! r"
    by (simp add: f nth_append)
  show "r < length (materials (heap w)) \<Longrightarrow>
     materials (heap (snd (generateStructure d ft w))) ! r = materials (heap w) ! r"
    by (simp add: f nth_append)
qed

lemma destroyed_mono:
  assumes "destroyed h g"
    and "\<And>obj. obj \<in> set (traverse g) \<Longrightarrow> geometryDisposed (geometries h ! geometry obj) \<Longrightarrow>
           geometryDisposed (geometries h' ! geometry obj)"
    and "\<And>obj. obj \<in> set (traverse g) \<Longrightarrow> materialDisposed (materials h ! material obj) \<Longrightarrow>
           materialDisposed (materials h' ! material obj)"
  shows "destroyed h' g"
  using assms by (auto simp: destroyed_def list_all_iff)

lemma clearedWorld_facts:
  assumes inv: "sceneInv s"
  shows "sceneChildren (clearedWorld s) = [objectId (structureGroup (activeArtifacts s))]"
    and "nextObjectId (clearedWorld s) = nextObjectId (world s)"
    and "live (heap (clearedWorld s)) (structureGroup (activeArtifacts s))"
    and "length (geometries (heap (clearedWorld s))) = length (geometries (heap (world s)))"
    and "length (materials (heap (clearedWorld s))) = length (materials (heap (world s)))"
    and "\<And>r. r < length (materials (heap (world s))) \<Longrightarrow>
           opacity (materials (heap (clearedWorld s)) ! r) = opacity (materials (heap (world s)) ! r)"
proof -
  note a = sceneInv_activeD [OF inv]
  show "sceneChildren (clearedWorld s) = [objectId (structureGroup (activeArtifacts s))]"
    using sceneInv_NoneD [OF inv] sceneInv_SomeD [OF inv]
    by (cases "fadingOutGroupRef s") (simp_all add: clearedWorld_def sceneRemove_def Let_def)
  show "nextObjectId (clearedWorld s) = nextObjectId (world s)"
    by (cases "fadingOutGroupRef s") (simp_all add: clearedWorld_def sceneRemove_def Let_def)
  show "live (heap (clearedWorld s)) (structureGroup (activeArtifacts s))"
    using a(1) sceneInv_SomeD(5,6) [OF inv]
    by (cases "fadingOutGroupRef s")
       (simp_all add: clearedWorld_def sceneRemove_def Let_def live_disposeGroup_disjoint)
  show "length (geometries (heap (clearedWorld s))) = length (geometries (heap (world s)))"
    by (cases "fadingOutGroupRef s") (simp_all add: clearedWorld_def sceneRemove_def Let_def)
  show "length (materials (heap (clearedWorld s))) = length (materials (heap (world s)))"
    by (cases "fadingOutGroupRef s") (simp_all add: clearedWorld_def sceneRemove_def Let_def)
  show "\<And>r. r < length (materials (heap (world s))) \<Longrightarrow>
           opacity (materials (heap (clearedWorld s)) ! r) = opacity (materials (heap (world s)) ! r)"
    by (cases "fadingOutGroupRef s")
       (simp_all add: clearedWorld_def sceneRemove_def Let_def opacity_disposeGroup)
qed

lemma clearedWorld_Some:
  assumes inv: "sceneInv s" and fg: "fadingOutGroupRef s = Some fg"
  shows "destroyed (heap (clearedWorld s)) fg"
    and "set (disposedGeometries (heap (clearedWorld s)))
           = set (disposedGeometries (heap (world s))) \<union> geometryRefs fg"
    and "set (disposedMaterials (heap (clearedWorld s)))
           = set (disposedMaterials (heap (world s))) \<union> materialRefs fg"
    and "length (sceneChildren (sceneRemove fg (world s))) = 1"
proof -
  note f = sceneInv_SomeD [OF inv fg]
  have h: "heap (clearedWorld s) = disposeGroup fg (heap (world s))"
    by (simp add: clearedWorld_def fg sceneRemove_def Let_def)
  show "destroyed (heap (clearedWorld s)) fg"
    using f(4) by (simp add: h destroyed_disposeGroup)
  show "set (disposedGeometries (heap (clearedWorld s)))
           = set (disposedGeometries (heap (world s))) \<union> geometryRefs fg"
    using live_refs [OF f(4)] by (simp add: h set_disposedGeometries_disposeGroup)
  show "set (disposedMaterials (heap (clearedWorld s)))
           = set (disposedMaterials (heap (world s))) \<union> materialRefs fg"
    using live_refs [OF f(4)] by (simp add: h set_disposedMaterials_disposeGroup)
  show "length (sceneChildren (sceneRemove fg (world s))) = 1"
    using f(2,3) by (simp add: sceneRemove_def)
qed

lemma clearedWorld_None: "fadingOutGroupRef s = None \<Longrightarrow> clearedWorld s = world s"
  by (simp add: clearedWorld_def)

lemma markedWorld_facts:
  assumes inv: "sceneInv s"
  shows "sceneChildren (markedWorld s) = [objectId (structureGroup (activeArtifacts s))]"
    and "nextObjectId (markedWorld s) = nextObjectId (world s)"
    and "live (heap (markedWorld s)) g = live (heap (clearedWorld s)) g"
    and "disposedGeometries (heap (markedWorld s)) = disposedGeometries (heap (clearedWorld s))"
    and "disposedMaterials (heap (markedWorld s)) = disposedMaterials (heap (clearedWorld s))"
    and "length (materials (heap (markedWorld s))) = length (materials (heap (world s)))"
    and "\<And>r. r < length (materials (heap (world s))) \<Longrightarrow>
           opacity (materials (heap (markedWorld s)) ! r) = opacity (materials (heap (world s)) ! r)"
    and "structureTransparent (heap (markedWorld s)) (structureGroup (activeArtifacts s)) = Some True"
proof -
  note c = clearedWorld_facts [OF inv]
  show "sceneChildren (markedWorld s) = [objectId (structureGroup (activeArtifacts s))]"
    "nextObjectId (markedWorld s) = nextObjectId (world s)"
    "live (heap (markedWorld s)) g = live (heap (clearedWorld s)) g"
    "disposedGeometries (heap (markedWorld s)) = disposedGeometries (heap (clearedWorld s))"
    "disposedMaterials (heap (markedWorld s)) = disposedMaterials (heap (clearedWorld s))"
    "length (materials (heap (markedWorld s))) = length (materials (heap (world s)))"
    by (simp_all add: markedWorld_def c live_traverseMaterials disposedMaterials_traverseMaterials)
  show "opacity (materials (heap (markedWorld s)) ! r) = opacity (materials (heap (world s)) ! r)"
    if "r < length (materials (heap (world s)))" for r
  proof -
    have "opacity (materials (heap (markedWorld s)) ! r)
            = opacity (materials (heap (clearedWorld s)) ! r)"
      using that c(5)
        nth_fold_update_invariant [of opacity "\<lambda>mat. mat\<lparr>transparent := True\<rparr>" r
          "materials (heap (clearedWorld s))"
          "map material (traverse (structureGroup (activeArtifacts s)))"]
      by (simp add: markedWorld_def materials_traverseMaterials)
    then show ?thesis using c(6) [OF that] by simp
  qed
  show "structureTransparent (heap (markedWorld s)) (structureGroup (activeArtifacts s)) = Some True"
    using c(3) by (simp add: markedWorld_def structureTransparent_setter)
qed

lemma changed_facts:
  fixes time :: real
  assumes inv: "sceneInv s"
    and ch: "currentDepth s \<noteq> depth state \<or> currentFractalType s \<noteq> fractalType state"
  defines "s2 \<equiv> handlePropChanges state time s"
  shows "sceneInv s2"
    and "fadingOutGroupRef s2 = Some (structureGroup (activeArtifacts s))"
    and "transitionStartTimeRef s2 = Some time"
    and "currentDepth s2 = depth state" and "currentFractalType s2 = fractalType state"
    and "sceneChildren (world s2)
           = [objectId (structureGroup (activeArtifacts s)), nextObjectId (world s)]"
    and "objectId (structureGroup (activeArtifacts s2)) = nextObjectId (world s)"
    and "structureOpacity (heap (world s2)) (structureGroup (activeArtifacts s2)) = Some 0"
    and "structureOpacity (heap (world s2)) (structureGroup (activeArtifacts s))
           = structureOpacity (heap (world s)) (structureGroup (activeArtifacts s))"
    and "set (disposedGeometries (heap (world s2))) = set (disposedGeometries (heap (clearedWorld s)))"
    and "set (disposedMaterials (heap (world s2))) = set (disposedMaterials (heap (clearedWorld s)))"
    and "destroyed (heap (clearedWorld s)) g \<Longrightarrow> live (heap (world s)) g \<Longrightarrow>
           destroyed (heap (world s2)) g"
proof -
  let ?ag = "structureGroup (activeArtifacts s)"
  let ?gen = "generateStructure (depth state) (fractalType state) (markedWorld s)"
  let ?new = "structureGroup (fst ?gen)"
  let ?zero = "\<lambda>mat. mat\<lparr>transparent := True, opacity := 0\<rparr>"
  note a = sceneInv_activeD [OF inv] and c = clearedWorld_facts [OF inv]
    and m = markedWorld_facts [OF inv]
  have s2: "s2 = s\<lparr>world := (snd ?gen)\<lparr>heap := traverseMaterials ?new ?zero (heap (snd ?gen))\<rparr>,
             fadingOutGroupRef := Some ?ag,
             transitionStartTimeRef := Some time, currentDepth := depth state,
             currentFractalType := fractalType state, activeArtifacts := fst ?gen\<rparr>"
    unfolding s2_def by (rule handlePropChanges_changed [OF ch])
  have live_ag: "live (heap (markedWorld s)) ?ag" by (simp add: m(3) c(3))
  note old = generateStructure_live_old [OF live_ag, of "depth state" "fractalType state"]
  note new = generateStructure_live_new [of "depth state" "fractalType state" "markedWorld s"]
  note wd = generateStructure_world [of "depth state" "fractalType state" "markedWorld s"]
  show "fadingOutGroupRef s2 = Some ?ag" "transitionStartTimeRef s2 = Some time"
    "currentDepth s2 = depth state" "currentFractalType s2 = fractalType state"
    by (simp_all add: s2)
  show sc: "sceneChildren (world s2) = [objectId ?ag, nextObjectId (world s)]"
    by (simp add: s2 wd m)
  show id: "objectId (structureGroup (activeArtifacts s2)) = nextObjectId (world s)"
    by (simp add: s2 wd m)
  have sub: "set (mainFractalMeshes (fst ?gen)) \<subseteq> set (traverse ?new)"
    by (rule generateStructure_fresh [of "depth state" "fractalType state" "markedWorld s"])
  show "sceneInv s2"
  proof (rule sceneInv_SomeI [of _ ?ag])
    show "fadingOutGroupRef s2 = Some ?ag" by (simp add: s2)
    show "transitionStartTimeRef s2 \<noteq> None" by (simp add: s2)
    show "live (heap (world s2)) (structureGroup (activeArtifacts s2))"
      using new by (simp add: s2 live_traverseMaterials)
    show "objectId (structureGroup (activeArtifacts s2)) < nextObjectId (world s2)"
      by (simp add: s2 wd)
    show "set (mainFractalMeshes (activeArtifacts s2))
            \<subseteq> set (traverse (structureGroup (activeArtifacts s2)))"
      using sub by (simp add: s2)
    show "sceneChildren (world s2) = [objectId ?ag, objectId (structureGroup (activeArtifacts s2))]"
      using sc id by simp
    show "objectId ?ag < objectId (structureGroup (activeArtifacts s2))"
      using a(2) id by simp
    show "live (heap (world s2)) ?ag"
      using old(1) by (simp add: s2 live_traverseMaterials)
    show "geometryRefs ?ag \<inter> geometryRefs (structureGroup (activeArtifacts s2)) = {}"
      using old(2) by (simp add: s2)
    show "materialRefs ?ag \<inter> materialRefs (structureGroup (activeArtifacts s2)) = {}"
      using old(3) by (simp add: s2)
  qed
  show "structureOpacity (heap (world s2)) (structureGroup (activeArtifacts s2)) = Some 0"
    using new by (simp add: s2 structureOpacity_setter)
  have "materialRefs ?new \<inter> materialRefs ?ag = {}" using old(3) by blast
  then have "structureOpacity (heap (world s2)) ?ag = structureOpacity (heap (snd ?gen)) ?ag"
    by (simp add: s2 structureOpacity_traverseMaterials_disjoint)
  also have "\<dots> = structureOpacity (heap (markedWorld s)) ?ag" by (rule old(4))
  also have "\<dots> = structureOpacity (heap (world s)) ?ag"
  proof (rule structureOpacity_cong)
    fix obj assume "obj \<in> set (traverse ?ag)"
    then have "material obj < length (materials (heap (world s)))"
      using a(1) by (simp add: live_def list_all_iff)
    then show "opacity (materials (heap (markedWorld s)) ! material obj)
                 = opacity (materials (heap (world s)) ! material obj)"
      by (rule m(7))
  qed
  finally show "structureOpacity (heap (world s2)) ?ag = structureOpacity (heap (world s)) ?ag" .
  show "set (disposedGeometries (heap (world s2))) = set (disposedGeometries (heap (clearedWorld s)))"
    by (simp add: s2 generateStructure_disposed m)
  show "set (disposedMaterials (heap (world s2))) = set (disposedMaterials (heap (clearedWorld s)))"
    by (simp add: s2 disposedMaterials_traverseMaterials generateStructure_disposed m)
  show "destroyed (heap (world s2)) g"
    if d: "destroyed (heap (clearedWorld s)) g" and l: "live (heap (world s)) g"
  proof (rule destroyed_mono [OF d])
    fix obj assume obj: "obj \<in> set (traverse g)"
    then have r: "geometry obj < length (geometries (heap (world s)))"
      "material obj < length (materials (heap (world s)))"
      using l by (simp_all add: live_def list_all_iff)
    have g1: "geometries (heap (markedWorld s)) = geometries (heap (clearedWorld s))"
      by (simp add: markedWorld_def)
    show "geometryDisposed (geometries (heap (world s2)) ! geometry obj)"
      if "geometryDisposed (geometries (heap (clearedWorld s)) ! geometry obj)"
      using that r(1) c(4) by (simp add: s2 generateStructure_old_cells g1)
    have m1: "materialDisposed (materials (heap (markedWorld s)) ! material obj)
                = materialDisposed (materials (heap (clearedWorld s)) ! material obj)"
      using r(2) c(5) by (simp add: markedWorld_def materialDisposed_traverseMaterials)
    have len: "material obj < length (materials (heap (snd ?gen)))"
    proof -
      obtain gs ms where "heap (snd ?gen)
         = \<lparr>geometries = geometries (heap (markedWorld s)) @ gs,
            materials = materials (heap (markedWorld s)) @ ms\<rparr>"
        by (rule generateStructure_fresh)
      then show ?thesis using r(2) m(6) by simp
    qed
    show "materialDisposed (materials (heap (world s2)) ! material obj)"
      if "materialDisposed (materials (heap (clearedWorld s)) ! material obj)"
      using that r(2) m(6) m1 len
      by (simp add: s2 materialDisposed_traverseMaterials generateStructure_old_cells)
  qed
qed

subsection \<open>Rotation and the Doppler pass\<close>

lemma autoRotate_structure [simp]:
  "traverse (structureGroup (autoRotate state a)) = traverse (structureGroup a)"
  "objectId (structureGroup (autoRotate state a)) = objectId (structureGroup a)"
  "mainFractalMeshes (autoRotate state a) = mainFractalMeshes a"
  by (simp_all add: autoRotate_def applyRotation_def Let_def traverse_def structureGroup_def)

lemma autoRotate_at_rest: "speed state = 0 \<Longrightarrow> autoRotate state a = a"
  by (simp add: autoRotate_def)

lemma geometryRefs_cong: "traverse g = traverse g' \<Longrightarrow> geometryRefs g = geometryRefs g'"
  by (simp add: geometryRefs_def)

lemma materialRefs_cong: "traverse g = traverse g' \<Longrightarrow> materialRefs g = materialRefs g'"
  by (simp add: materialRefs_def)

lemma live_cong: "traverse g = traverse g' \<Longrightarrow> live h g = live h g'"
  by (simp add: live_def)


lemma recolorMesh_shape [simp]:
  "length (geometries (recolorMesh av cam sg mesh h)) = length (geometries h)"
  "length (materials (recolorMesh av cam sg mesh h)) = length (materials h)"
  by (simp_all add: recolorMesh_def Let_def)

lemma nth_list_update_invariant:
  "(\<And>x. P (f x) = P x) \<Longrightarrow> P (xs[i := f (xs ! i)] ! r) = P (xs ! r)"
  by (cases "i < length xs"; cases "r = i") (simp_all add: list_update_beyond)

lemma geometries_recolorMesh:
  "geometries (recolorMesh av cam sg mesh h)
     = (geometries h)[geometry mesh :=
         (\<lambda>geom. geom\<lparr>colorAttribute :=
              Some (vertexColorsFor av cam (layerGroup sg (parent mesh)) (position geom))\<rparr>)
           (geometries h ! geometry mesh)]"
  by (simp add: recolorMesh_def Let_def)

lemma materials_recolorMesh:
  "materials (recolorMesh av cam sg mesh h)
     = (materials h)[material mesh :=
         (\<lambda>mat. mat\<lparr>vertexColors := True\<rparr>) (materials h ! material mesh)]"
  by (simp add: recolorMesh_def Let_def)

lemma recolorMesh_cells:
  "geometryDisposed (geometries (recolorMesh av cam sg mesh h) ! r) = geometryDisposed (geometries h ! r)"
  "position (geometries (recolorMesh av cam sg mesh h) ! r) = position (geometries h ! r)"
  "materialDisposed (materials (recolorMesh av cam sg mesh h) ! r) = materialDisposed (materials h ! r)"
  "opacity (materials (recolorMesh av cam sg mesh h) ! r) = opacity (materials h ! r)"
  "transparent (materials (recolorMesh av cam sg mesh h) ! r) = transparent (materials h ! r)"
  unfolding geometries_recolorMesh materials_recolorMesh
  by (rule nth_list_update_invariant, simp)+

lemma updateDopplerColors_shape [simp]:
  "length (geometries (updateDopplerColors fs axis sg meshes cam h)) = length (geometries h)"
  "length (materials (updateDopplerColors fs axis sg meshes cam h)) = length (materials h)"
  unfolding updateDopplerColors_def
  by (induction meshes arbitrary: h) simp_all

lemma updateDopplerColors_cells:
  "geometryDisposed (geometries (updateDopplerColors fs axis sg meshes cam h) ! r)
     = geometryDisposed (geometries h ! r)"
  "position (geometries (updateDopplerColors fs axis sg meshes cam h) ! r)
     = position (geometries h ! r)"
  "materialDisposed (materials (updateDopplerColors fs axis sg meshes cam h) ! r)
     = materialDisposed (materials h ! r)"
  "opacity (materials (updateDopplerColors fs axis sg meshes cam h) ! r) = opacity (materials h ! r)"
  "transparent (materials (updateDopplerColors fs axis sg meshes cam h) ! r)
     = transparent (materials h ! r)"
  unfolding updateDopplerColors_def
  by (induction meshes arbitrary: h; simp add: recolorMesh_cells)+

lemma live_updateDopplerColors [simp]:
  "live (updateDopplerColors fs axis sg meshes cam h) g = live h g"
  by (simp add: live_def updateDopplerColors_cells)

lemma destroyed_updateDopplerColors [simp]:
  "destroyed (updateDopplerColors fs axis sg meshes cam h) g = destroyed h g"
  by (simp add: destroyed_def updateDopplerColors_cells)

lemma structureOpacity_updateDopplerColors [simp]:
  "structureOpacity (updateDopplerColors fs axis sg meshes cam h) g = structureOpacity h g"
  by (simp add: structureOpacity_def updateDopplerColors_cells)

lemma disposed_updateDopplerColors [simp]:
  "disposedGeometries (updateDopplerColors fs axis sg meshes cam h) = disposedGeometries h"
  "disposedMaterials (updateDopplerColors fs axis sg meshes cam h) = disposedMaterials h"
  by (simp_all add: disposedGeometries_def disposedMaterials_def updateDopplerColors_cells)

subsection \<open>Whole frames\<close>

lemma sceneInv_handlePropChanges:
  "sceneInv s \<Longrightarrow> sceneInv (handlePropChanges state time s)"
  by (cases "currentDepth s \<noteq> depth state \<or> currentFractalType s \<noteq> fractalType state")
     (auto simp: changed_facts(1) handlePropChanges_unchanged)

lemma sceneInv_afterBlocks: "sceneInv s \<Longrightarrow> sceneInv (afterBlocks state time s)"
  by (simp add: afterBlocks_def sceneInv_handlePropChanges sceneInv_handleTransitionAnimation)

lemma animate_fields:
  "fadingOutGroupRef (animate state time s) = fadingOutGroupRef (afterBlocks state time s)"
  "transitionStartTimeRef (animate state time s) = transitionStartTimeRef (afterBlocks state time s)"
  "currentDepth (animate state time s) = currentDepth (afterBlocks state time s)"
  "currentFractalType (animate state time s) = currentFractalType (afterBlocks state time s)"
  "sceneChildren (world (animate state time s)) = sceneChildren (world (afterBlocks state time s))"
  "nextObjectId (world (animate state time s)) = nextObjectId (world (afterBlocks state time s))"
  "activeArtifacts (animate state time s) = autoRotate state (activeArtifacts (afterBlocks state time s))"
  "live (heap (world (animate state time s))) g = live (heap (world (afterBlocks state time s))) g"
  "destroyed (heap (world (animate state time s))) g
     = destroyed (heap (world (afterBlocks state time s))) g"
  "structureOpacity (heap (world (animate state time s))) g
     = structureOpacity (heap (world (afterBlocks state time s))) g"
  "disposedGeometries (heap (world (animate state time s)))
     = disposedGeometries (heap (world (afterBlocks state time s)))"
  "disposedMaterials (heap (world (animate state time s)))
     = disposedMaterials (heap (world (afterBlocks state time s)))"
  by (simp_all add: animate_def afterBlocks_def Let_def)

lemma sceneInv_traverse_cong:
  assumes "sceneInv s"
    and "fadingOutGroupRef s' = fadingOutGroupRef s"
    and "transitionStartTimeRef s' = transitionStartTimeRef s"
    and "sceneChildren (world s') = sceneChildren (world s)"
    and "nextObjectId (world s') = nextObjectId (world s)"
    and "traverse (structureGroup (activeArtifacts s')) = traverse (structureGroup (activeArtifacts s))"
    and "objectId (structureGroup (activeArtifacts s')) = objectId (structureGroup (activeArtifacts s))"
    and "mainFractalMeshes (activeArtifacts s') = mainFractalMeshes (activeArtifacts s)"
    and "\<And>g. live (heap (world s')) g = live (heap (world s)) g"
  shows "sceneInv s'"
  using assms(1)
  unfolding sceneInv_def Let_def assms(2-5,7-9)
    live_cong [OF assms(6)] geometryRefs_cong [OF assms(6)] materialRefs_cong [OF assms(6)]
    assms(6)
  by simp

lemma sceneInv_animate: "sceneInv s \<Longrightarrow> sceneInv (animate state time s)"
  by (rule sceneInv_traverse_cong [OF sceneInv_afterBlocks [of s state time]])
     (simp_all add: animate_fields)

lemma sceneInv_initialState: "sceneInv (initialState props cam)"
proof (rule sceneInv_NoneI)
  note wd = generateStructure_world [of "depth props" "fractalType props" emptyWorld]
  show "live (heap (world (initialState props cam)))
          (structureGroup (activeArtifacts (initialState props cam)))"
    using generateStructure_live_new [of "depth props" "fractalType props" emptyWorld]
    by (simp add: initialState_def split_def Let_def)
  show "set (mainFractalMeshes (activeArtifacts (initialState props cam)))
          \<subseteq> set (traverse (structureGroup (activeArtifacts (initialState props cam))))"
    using generateStructure_fresh [of "depth props" "fractalType props" emptyWorld]
    by (simp add: initialState_def split_def Let_def)
qed (simp_all add: initialState_def split_def Let_def generateStructure_world emptyWorld_def)

subsection \<open>Doppler colours at rest\<close>

lemma angularVelocityOf_rest: "angularVelocityOf 0 axis = Vector3 0 0 0"
  by (simp add: angularVelocityOf_def)

lemma relativeSpeed_rest: "relativeSpeed (Vector3 0 0 0) cam tempVec = 0"
  by (simp add: relativeSpeed_def Let_def crossVectors_def vnegate_def vdot_def)

lemma dopplerColor_rest: "dopplerColor 0 = baseMainColor"
  by (cases baseMainColor) (simp add: dopplerColor_def colorLerp_def)

lemma vertexColorsFor_rest:
  "vertexColorsFor (Vector3 0 0 0) cam g ps = replicate (length ps) baseMainColor"
  by (simp add: vertexColorsFor_def relativeSpeed_rest dopplerColor_rest map_replicate_const)

lemma geometries_updateDopplerColors_rest:
  "geometries (updateDopplerColors 0 axis sg meshes cam h)
     = fold (\<lambda>i xs. xs[i := (\<lambda>geom. geom\<lparr>colorAttribute :=
                 Some (replicate (length (position geom)) baseMainColor)\<rparr>) (xs ! i)])
         (map geometry meshes) (geometries h)"
  unfolding updateDopplerColors_def angularVelocityOf_rest
  by (induction meshes arbitrary: h)
     (simp_all add: geometries_recolorMesh vertexColorsFor_rest)

lemma colors_updateDopplerColors_rest:
  assumes "mesh \<in> set meshes" "geometry mesh < length (geometries h)"
  shows "colorAttribute (geometries (updateDopplerColors 0 axis sg meshes cam h) ! geometry mesh)
           = Some (replicate
               (length (position (geometries (updateDopplerColors 0 axis sg meshes cam h) ! geometry mesh)))
               baseMainColor)"
proof -
  let ?f = "\<lambda>geom. geom\<lparr>colorAttribute := Some (replicate (length (position geom)) baseMainColor)\<rparr>"
  have "geometries (updateDopplerColors 0 axis sg meshes cam h) ! geometry mesh
          = ?f (geometries h ! geometry mesh)"
    unfolding geometries_updateDopplerColors_rest
    using assms by (intro nth_fold_update_setter) simp_all
  then show ?thesis by (simp add: updateDopplerColors_cells)
qed

text \<open>
  C8. In a frame with the Doppler effect enabled and the speed parameter 0, the relative
  speed the pass computes is 0 for every vertex and every camera position, and after the
  frame the colour attribute of every surface mesh of the active structure holds the base
  colour \<^verbatim>\<open>0xff8c00\<close> at every vertex.
\<close>

theorem doppler_at_rest:
  assumes "sceneInv s" and "isDopplerEffect state" and "speed state = 0"
  shows "relativeSpeed (angularVelocityOf (speed state / 20000) (rotationAxis state))
             cam tempVec = 0
         \<and> dopplerColor (relativeSpeed (angularVelocityOf (speed state / 20000) (rotationAxis state))
             cam tempVec) = colorOfHex 16747520
         \<and> list_all
             (\<lambda>mesh. colorAttribute (geometries (heap (world (animate state time s))) ! geometry mesh)
                 = Some (replicate
                     (length (position (geometries (heap (world (animate state time s))) ! geometry mesh)))
                     (colorOfHex 16747520)))
             (mainFractalMeshes (activeArtifacts (animate state time s)))"
proof -
  let ?s2 = "afterBlocks state time s"
  have inv: "sceneInv ?s2" using assms(1) by (rule sceneInv_afterBlocks)
  note a = sceneInv_activeD [OF inv]
  have an: "animate state time s
      = ?s2\<lparr>activeArtifacts := autoRotate state (activeArtifacts ?s2),
            world := (world ?s2)\<lparr>heap :=
               updateDopplerColors 0 (rotationAxis state)
                 (structureGroup (autoRotate state (activeArtifacts ?s2)))
                 (mainFractalMeshes (activeArtifacts ?s2)) (cameraPosition ?s2)
                 (heap (world ?s2))\<rparr>\<rparr>"
    using assms(2,3) by (simp add: animate_def afterBlocks_def Let_def)
  have "colorAttribute (geometries (heap (world (animate state time s))) ! geometry mesh)
          = Some (replicate
              (length (position (geometries (heap (world (animate state time s))) ! geometry mesh)))
              baseMainColor)"
    if "mesh \<in> set (mainFractalMeshes (activeArtifacts ?s2))" for mesh
  proof -
    from that a(3) have "mesh \<in> set (traverse (structureGroup (activeArtifacts ?s2)))" by blast
    then have "geometry mesh < length (geometries (heap (world ?s2)))"
      using a(1) by (simp add: live_def list_all_iff)
    with that show ?thesis
      unfolding an by (simp add: colors_updateDopplerColors_rest)
  qed
  then show ?thesis
    using assms(3)
    by (simp add: list_all_iff animate_fields angularVelocityOf_rest relativeSpeed_rest
          dopplerColor_rest baseMainColor_def)
qed

theorem doppler_at_rest_witness:
  "sceneInv (initialState defaultControlsState initialCamera)
   \<and> isDopplerEffect (defaultControlsState\<lparr>speed := 0, isDopplerEffect := True\<rparr>)
   \<and> speed (defaultControlsState\<lparr>speed := 0, isDopplerEffect := True\<rparr>) = 0
   \<and> list_all
        (\<lambda>mesh. colorAttribute
             (geometries (heap (world
                (animate (defaultControlsState\<lparr>speed := 0, isDopplerEffect := True\<rparr>) 0
                   (initialState defaultControlsState initialCamera)))) ! geometry mesh)
           = Some (replicate
               (length (position
                  (geometries (heap (world
                     (animate (defaultControlsState\<lparr>speed := 0, isDopplerEffect := True\<rparr>) 0
                        (initialState defaultControlsState initialCamera)))) ! geometry mesh)))
               (colorOfHex 16747520)))
        (mainFractalMeshes (activeArtifacts
           (animate (defaultControlsState\<lparr>speed := 0, isDopplerEffect := True\<rparr>) 0
              (initialState defaultControlsState initialCamera))))"
  using doppler_at_rest [OF sceneInv_initialState [of defaultControlsState initialCamera],
          of "defaultControlsState\<lparr>speed := 0, isDopplerEffect := True\<rparr>" initialCamera
             initialCamera 0]
        sceneInv_initialState [of defaultControlsState initialCamera]
  by simp

subsection \<open>Vertex colours of meshes that share a geometry\<close>

text \<open>
  C7 (the code departs from the claim). In a structure of type noegenesis every object has
  a material of its own, but the principal and the exterior surface mesh have one
  geometry, and the vertex colours are an attribute of the geometry. Recolouring the exterior mesh alone gives the
  principal mesh a colour attribute it did not have, and after a full Doppler pass the
  colours the principal mesh is drawn with are those computed with the exterior layer's
  world matrix.
\<close>

theorem shared_geometry_colors:
  "let a = fst (generateStructure d Noegenesis w);
       h = heap (snd (generateStructure d Noegenesis w));
       principalMesh = mainFractalMeshes a ! 0;
       exteriorMesh = mainFractalMeshes a ! 1;
       exteriorColors =
         vertexColorsFor (angularVelocityOf frameSpeed axis) cam (geoideExteriorGroup a)
           (position (geometries h ! geometry principalMesh));
       h1 = updateDopplerColors frameSpeed axis (structureGroup a) [exteriorMesh] cam h;
       h2 = updateDopplerColors frameSpeed axis (structureGroup a) (mainFractalMeshes a) cam h
   in distinct (map material (traverse (structureGroup a)))
      \<and> mainFractalMeshes a = [principalMesh, exteriorMesh]
      \<and> parent principalMesh = Principal \<and> parent exteriorMesh = Exterior
      \<and> material principalMesh \<noteq> material exteriorMesh
      \<and> geometry principalMesh = geometry exteriorMesh
      \<and> colorAttribute (geometries h ! geometry principalMesh) = None
      \<and> colorAttribute (geometries h1 ! geometry principalMesh) = Some exteriorColors
      \<and> colorAttribute (geometries h2 ! geometry principalMesh) = Some exteriorColors"
  by (simp add: Let_def generateStructure_plain traverse_plainArtifacts)
     (simp add: plainArtifacts_def grownWorld_def
        updateDopplerColors_def geometries_recolorMesh materials_recolorMesh
        freshGeometry_def layerGroup_def structureGroup_def nth_append)

subsection \<open>The transition state machine\<close>

text \<open>
  C5. Between frames the scene holds the active structure and, during a transition, the
  outgoing one: never more than two, after either block of a frame and after the whole
  frame. When the progress reaches 1 the transition block releases every geometry and
  material of the outgoing structure and nothing else, takes it out of the scene and
  leaves the active structure with non-transparent materials of opacity 1. When a depth or
  type change arrives during a transition, the parameter-change block releases the
  outgoing structure at once (the scene then holds one structure, before the new one is
  generated) and makes the active structure the new outgoing one; when it arrives outside
  a transition nothing is released.
\<close>

theorem transition_lifecycle:
  fixes time :: real and state :: SceneProps
  assumes "sceneInv s"
  defines "s1 \<equiv> handleTransitionAnimation time s"
  defines "s2 \<equiv> handlePropChanges state time s1"
  shows "sceneInv s1 \<and> sceneInv s2 \<and> sceneInv (animate state time s)
     \<and> length (sceneChildren (world s1)) \<le> 2
     \<and> length (sceneChildren (world s2)) \<le> 2
     \<and> length (sceneChildren (world (animate state time s))) \<le> 2
     \<and> (case (fadingOutGroupRef s, transitionStartTimeRef s) of
           (Some outgoing, Some start) \<Rightarrow>
             if 1 \<le> (time - start) / TRANSITION_DURATION
             then fadingOutGroupRef s1 = None \<and> transitionStartTimeRef s1 = None
                  \<and> activeArtifacts s1 = activeArtifacts s
                  \<and> destroyed (heap (world s1)) outgoing
                  \<and> objectId outgoing \<notin> set (sceneChildren (world s1))
                  \<and> structureOpacity (heap (world s1)) (structureGroup (activeArtifacts s1)) = Some 1
                  \<and> structureTransparent (heap (world s1)) (structureGroup (activeArtifacts s1))
                      = Some False
                  \<and> set (disposedGeometries (heap (world s1)))
                      = set (disposedGeometries (heap (world s))) \<union> geometryRefs outgoing
                  \<and> set (disposedMaterials (heap (world s1)))
                      = set (disposedMaterials (heap (world s))) \<union> materialRefs outgoing
             else fadingOutGroupRef s1 = Some outgoing
                  \<and> disposedGeometries (heap (world s1)) = disposedGeometries (heap (world s))
                  \<and> disposedMaterials (heap (world s1)) = disposedMaterials (heap (world s))
         | _ \<Rightarrow> s1 = s)
     \<and> (if currentDepth s1 \<noteq> depth state \<or> currentFractalType s1 \<noteq> fractalType state
         then fadingOutGroupRef s2 = Some (structureGroup (activeArtifacts s1))
              \<and> transitionStartTimeRef s2 = Some time
              \<and> live (heap (world s2)) (structureGroup (activeArtifacts s1))
              \<and> (case fadingOutGroupRef s1 of
                    Some outgoing \<Rightarrow>
                      destroyed (heap (world s2)) outgoing
                      \<and> objectId outgoing \<notin> set (sceneChildren (world s2))
                      \<and> length (sceneChildren (sceneRemove outgoing (world s1))) = 1
                      \<and> set (disposedGeometries (heap (world s2)))
                          = set (disposedGeometries (heap (world s1))) \<union> geometryRefs outgoing
                      \<and> set (disposedMaterials (heap (world s2)))
                          = set (disposedMaterials (heap (world s1))) \<union> materialRefs outgoing
                  | None \<Rightarrow>
                      set (disposedGeometries (heap (world s2)))
                          = set (disposedGeometries (heap (world s1)))
                      \<and> set (disposedMaterials (heap (world s2)))
                          = set (disposedMaterials (heap (world s1))))
         else s2 = s1)"
proof -
  have inv1: "sceneInv s1"
    unfolding s1_def using assms(1) by (rule sceneInv_handleTransitionAnimation)
  have inv2: "sceneInv s2"
    unfolding s2_def using inv1 by (rule sceneInv_handlePropChanges)
  have inv3: "sceneInv (animate state time s)"
    using assms(1) by (rule sceneInv_animate)
  have block1: "(case (fadingOutGroupRef s, transitionStartTimeRef s) of
           (Some outgoing, Some start) \<Rightarrow>
             if 1 \<le> (time - start) / TRANSITION_DURATION
             then fadingOutGroupRef s1 = None \<and> transitionStartTimeRef s1 = None
                  \<and> activeArtifacts s1 = activeArtifacts s
                  \<and> destroyed (heap (world s1)) outgoing
                  \<and> objectId outgoing \<notin> set (sceneChildren (world s1))
                  \<and> structureOpacity (heap (world s1)) (structureGroup (activeArtifacts s1)) = Some 1
                  \<and> structureTransparent (heap (world s1)) (structureGroup (activeArtifacts s1))
                      = Some False
                  \<and> set (disposedGeometries (heap (world s1)))
                      = set (disposedGeometries (heap (world s))) \<union> geometryRefs outgoing
                  \<and> set (disposedMaterials (heap (world s1)))
                      = set (disposedMaterials (heap (world s))) \<union> materialRefs outgoing
             else fadingOutGroupRef s1 = Some outgoing
                  \<and> disposedGeometries (heap (world s1)) = disposedGeometries (heap (world s))
                  \<and> disposedMaterials (heap (world s1)) = disposedMaterials (heap (world s))
         | _ \<Rightarrow> s1 = s)"
  proof (cases "fadingOutGroupRef s")
    case None
    then show ?thesis by (simp add: s1_def handleTransitionAnimation_idle)
  next
    case (Some fg)
    then obtain t0 where t0: "transitionStartTimeRef s = Some t0"
      using sceneInv_SomeD(1) [OF assms(1) Some] by auto
    show ?thesis
    proof (cases "1 \<le> (time - t0) / TRANSITION_DURATION")
      case True
      note c = complete_facts [OF assms(1) Some t0 True, folded s1_def]
      show ?thesis
        using True c(2-11) by (simp add: Some t0)
    next
      case False
      then have "s1 = s\<lparr>world := (world s)\<lparr>heap := fadedHeap time s fg t0\<rparr>\<rparr>"
        unfolding s1_def using handleTransitionAnimation_running [OF Some t0] by simp
      with False show ?thesis by (simp add: Some t0)
    qed
  qed
  have block2: "(if currentDepth s1 \<noteq> depth state \<or> currentFractalType s1 \<noteq> fractalType state
         then fadingOutGroupRef s2 = Some (structureGroup (activeArtifacts s1))
              \<and> transitionStartTimeRef s2 = Some time
              \<and> live (heap (world s2)) (structureGroup (activeArtifacts s1))
              \<and> (case fadingOutGroupRef s1 of
                    Some outgoing \<Rightarrow>
                      destroyed (heap (world s2)) outgoing
                      \<and> objectId outgoing \<notin> set (sceneChildren (world s2))
                      \<and> length (sceneChildren (sceneRemove outgoing (world s1))) = 1
                      \<and> set (disposedGeometries (heap (world s2)))
                          = set (disposedGeometries (heap (world s1))) \<union> geometryRefs outgoing
                      \<and> set (disposedMaterials (heap (world s2)))
                          = set (disposedMaterials (heap (world s1))) \<union> materialRefs outgoing
                  | None \<Rightarrow>
                      set (disposedGeometries (heap (world s2)))
                          = set (disposedGeometries (heap (world s1)))
                      \<and> set (disposedMaterials (heap (world s2)))
                          = set (disposedMaterials (heap (world s1))))
         else s2 = s1)"
  proof (cases "currentDepth s1 \<noteq> depth state \<or> currentFractalType s1 \<noteq> fractalType state")
    case False
    then show ?thesis by (simp add: s2_def handlePropChanges_unchanged)
  next
    case True
    note c = changed_facts [OF inv1 True, where time = time, folded s2_def]
    have live_old: "live (heap (world s2)) (structureGroup (activeArtifacts s1))"
      using sceneInv_SomeD(4) [OF inv2 c(2)] .
    show ?thesis
    proof (cases "fadingOutGroupRef s1")
      case None
      with True c live_old show ?thesis by (simp add: clearedWorld_None)
    next
      case (Some fg)
      note f = sceneInv_SomeD [OF inv1 Some] and a = sceneInv_activeD [OF inv1]
      note cw = clearedWorld_Some [OF inv1 Some]
      have "destroyed (heap (world s2)) fg"
        using c(12) [OF cw(1) f(4)] .
      moreover have "objectId fg \<notin> set (sceneChildren (world s2))"
        using f(3) a(2) by (simp add: c(6))
      ultimately show ?thesis
        using True c live_old cw by (simp add: Some)
    qed
  qed
  show ?thesis
    using inv1 inv2 inv3 sceneInv_scene_le2 [OF inv1] sceneInv_scene_le2 [OF inv2]
      sceneInv_scene_le2 [OF inv3] block1 block2
    by blast
qed

subsection \<open>Opacities during a transition\<close>





lemma transitioningExample_facts:
  "sceneInv transitioningExample"
  "fadingOutGroupRef transitioningExample
     = Some (structureGroup (activeArtifacts (initialState defaultControlsState initialCamera)))"
  "transitionStartTimeRef transitioningExample = Some 0"
  "currentDepth transitioningExample = 2"
  "currentFractalType transitioningExample = Noegenesis"
proof -
  let ?s0 = "initialState defaultControlsState initialCamera"
  let ?p = "defaultControlsState\<lparr>depth := 2\<rparr>"
  have inv0: "sceneInv ?s0" by (rule sceneInv_initialState)
  have idle: "fadingOutGroupRef ?s0 = None" "currentDepth ?s0 = 3"
    by (simp_all add: initialState_def split_def Let_def defaultControlsState_def)
  have ab: "afterBlocks ?p 0 ?s0 = handlePropChanges ?p 0 ?s0"
    by (simp add: afterBlocks_def handleTransitionAnimation_idle idle)
  have ch: "currentDepth ?s0 \<noteq> depth ?p \<or> currentFractalType ?s0 \<noteq> fractalType ?p"
    by (simp add: idle)
  note c = changed_facts [OF inv0 ch, where time = 0, folded ab]
  show "sceneInv transitioningExample"
    unfolding transitioningExample_def by (rule sceneInv_animate [OF inv0])
  show "fadingOutGroupRef transitioningExample = Some (structureGroup (activeArtifacts ?s0))"
    "transitionStartTimeRef transitioningExample = Some 0"
    "currentDepth transitioningExample = 2"
    "currentFractalType transitioningExample = Noegenesis"
    using c(2-5)
    by (simp_all add: transitioningExample_def animate_fields defaultControlsState_def)
qed

theorem transition_lifecycle_witness:
  "sceneInv transitioningExample
   \<and> fadingOutGroupRef (handleTransitionAnimation 1 transitioningExample) = None
   \<and> destroyed (heap (world (handleTransitionAnimation 1 transitioningExample)))
        (structureGroup (activeArtifacts (initialState defaultControlsState initialCamera)))
   \<and> structureOpacity (heap (world (handleTransitionAnimation 1 transitioningExample)))
        (structureGroup (activeArtifacts (handleTransitionAnimation 1 transitioningExample)))
       = Some 1
   \<and> length (sceneChildren (world (animate defaultControlsState 1 transitioningExample))) \<le> 2"
  using transition_lifecycle [OF transitioningExample_facts(1), of 1 defaultControlsState]
    transitioningExample_facts
  by (auto simp: TRANSITION_DURATION_def)



end
